theory Spec2Isabelle
  imports Main "HOL-Library.AList"
begin

section \<open>Data model (src/index.ts)\<close>

text \<open>
  \<^verbatim>\<open>interface MonadTransaction { id; timestamp; sender; recipient; amount; status }\<close>
  with \<^verbatim>\<open>status: 'pending' | 'confirmed' | 'failed'\<close>. The fields carry a \<open>tx_\<close>
  prefix because \<open>id\<close> is a constant of HOL.
\<close>

datatype tx_status = pending | confirmed | failed

record MonadTransaction =
  tx_id :: string
  tx_timestamp :: int
  tx_sender :: string
  tx_recipient :: string
  tx_amount :: string
  tx_status :: tx_status

text \<open>
  The values \<^verbatim>\<open>JSON.parse\<close> produces. An object is the list of its own properties in
  property order. Numbers are integers here: the only number the program writes is
  \<^verbatim>\<open>Date.now()\<close>.
\<close>

datatype json =
    JNull
  | JBool bool
  | JNum int
  | JStr string
  | JArr "json list"
  | JObj "(string \<times> json) list"

text \<open>Errors of the run-time system that the ledger functions catch.\<close>

datatype js_error = IOError | SyntaxError | TypeError

text \<open>
  The text of the ledger file, seen through what \<^verbatim>\<open>JSON.parse\<close> makes of it: either a
  text the parser rejects (the empty file is \<open>Unparseable []\<close>), or the JSON text of a value.
\<close>

datatype filedata = Unparseable string | JsonText json

fun JSON_parse :: "filedata \<Rightarrow> js_error + json" where
  "JSON_parse (Unparseable s) = Inl SyntaxError"
| "JSON_parse (JsonText v) = Inr v"

definition JSON_stringify :: "json \<Rightarrow> filedata" where
  "JSON_stringify v = JsonText v"

text \<open>
  The state the program acts on: the file at \<^verbatim>\<open>TX_LOG_PATH\<close> (\<open>None\<close>: no such file),
  whether \<^verbatim>\<open>readFile\<close> can read it, the outcomes of the coming \<^verbatim>\<open>writeFile\<close> calls
  (\<open>True\<close>: the write succeeds; an exhausted list: it succeeds; a write that fails leaves
  the file as it was), the lines written by
  \<^verbatim>\<open>console.error\<close>, and the calls made to the remote node.
\<close>

datatype rpc_call =
    GetGasPrice
  | GetBalance string
  | SendTransaction string string int int
  | WaitForTransactionReceipt string

record world =
  log_file :: "filedata option"
  readable :: bool
  write_results :: "bool list"
  console :: "(string \<times> string) list"
  rpc_log :: "rpc_call list"

definition readFile :: "world \<Rightarrow> js_error + filedata" where
  "readFile w =
     (if readable w then (case log_file w of None \<Rightarrow> Inl IOError | Some d \<Rightarrow> Inr d)
      else Inl IOError)"

definition writeFile :: "filedata \<Rightarrow> world \<Rightarrow> (js_error + unit) \<times> world" where
  "writeFile d w =
     (case write_results w of
        [] \<Rightarrow> (Inr (), w\<lparr>log_file := Some d\<rparr>)
      | ok # rest \<Rightarrow>
          if ok then (Inr (), w\<lparr>log_file := Some d, write_results := rest\<rparr>)
          else (Inl IOError, w\<lparr>write_results := rest\<rparr>))"

definition error_text :: "js_error \<Rightarrow> string" where
  "error_text e = (case e of IOError \<Rightarrow> ''Error'' | SyntaxError \<Rightarrow> ''SyntaxError''
                   | TypeError \<Rightarrow> ''TypeError'')"

definition console_error :: "string \<Rightarrow> string \<Rightarrow> world \<Rightarrow> world" where
  "console_error label msg w = w\<lparr>console := console w @ [(label, msg)]\<rparr>"

section \<open>Ledger store: MonadWalletManager\<close>

text \<open>\<^verbatim>\<open>getTransactionHistory\<close>: read and parse; any failure yields \<^verbatim>\<open>[]\<close>.\<close>

definition getTransactionHistory :: "world \<Rightarrow> json" where
  "getTransactionHistory w =
     (case readFile w of
        Inl e \<Rightarrow> JArr []
      | Inr data \<Rightarrow> (case JSON_parse data of Inl e \<Rightarrow> JArr [] | Inr v \<Rightarrow> v))"

definition status_text :: "tx_status \<Rightarrow> string" where
  "status_text s = (case s of pending \<Rightarrow> ''pending'' | confirmed \<Rightarrow> ''confirmed''
                    | failed \<Rightarrow> ''failed'')"

text \<open>The object literal passed to \<^verbatim>\<open>logTransaction\<close>, as a JSON value.\<close>

definition tx_to_json :: "MonadTransaction \<Rightarrow> json" where
  "tx_to_json tx = JObj
     [(''id'', JStr (tx_id tx)),
      (''timestamp'', JNum (tx_timestamp tx)),
      (''sender'', JStr (tx_sender tx)),
      (''recipient'', JStr (tx_recipient tx)),
      (''amount'', JStr (tx_amount tx)),
      (''status'', JStr (status_text (tx_status tx)))]"

text \<open>\<^verbatim>\<open>transactions.push(tx)\<close>: only an array has \<^verbatim>\<open>push\<close>.\<close>

fun js_push :: "json \<Rightarrow> json \<Rightarrow> js_error + json" where
  "js_push (JArr xs) x = Inr (JArr (xs @ [x]))"
| "js_push _ x = Inl TypeError"

definition logTransaction :: "MonadTransaction \<Rightarrow> world \<Rightarrow> world" where
  "logTransaction tx w =
     (case js_push (getTransactionHistory w) (tx_to_json tx) of
        Inl e \<Rightarrow> console_error ''Failed to log transaction:'' (error_text e) w
      | Inr transactions \<Rightarrow>
          (case writeFile (JSON_stringify transactions) w of
             (Inl e, w') \<Rightarrow> console_error ''Failed to log transaction:'' (error_text e) w'
           | (Inr u, w') \<Rightarrow> w'))"

text \<open>
  \<^verbatim>\<open>tx.id\<close>: reading a property of \<^verbatim>\<open>null\<close> throws; a parsed array, string, number or
  boolean has no property \<^verbatim>\<open>id\<close> (\<open>None\<close> stands for \<^verbatim>\<open>undefined\<close>).
\<close>

fun js_get :: "string \<Rightarrow> json \<Rightarrow> js_error + json option" where
  "js_get k JNull = Inl TypeError"
| "js_get k (JObj ps) = Inr (map_of ps k)"
| "js_get k _ = Inr None"

text \<open>
  \<^verbatim>\<open>transactions.findIndex(tx => tx.id === txId)\<close> on the elements of an array, counting
  from \<open>i\<close>; \<open>None\<close> stands for \<^verbatim>\<open>-1\<close>.
\<close>

fun findIndex_from :: "nat \<Rightarrow> string \<Rightarrow> json list \<Rightarrow> js_error + nat option" where
  "findIndex_from i txId [] = Inr None"
| "findIndex_from i txId (x # xs) =
     (case js_get ''id'' x of
        Inl e \<Rightarrow> Inl e
      | Inr v \<Rightarrow> if v = Some (JStr txId) then Inr (Some i)
                 else findIndex_from (Suc i) txId xs)"

fun findIndex :: "string \<Rightarrow> json \<Rightarrow> js_error + nat option" where
  "findIndex txId (JArr xs) = findIndex_from 0 txId xs"
| "findIndex txId _ = Inl TypeError"

text \<open>
  \<^verbatim>\<open>x.status = status\<close>: an object gets or replaces the property; an array takes the
  property but it is not part of its JSON text; assigning to anything else throws in
  strict mode.
\<close>

fun js_set :: "string \<Rightarrow> json \<Rightarrow> json \<Rightarrow> js_error + json" where
  "js_set k v (JObj ps) = Inr (JObj (AList.update k v ps))"
| "js_set k v (JArr xs) = Inr (JArr xs)"
| "js_set k v _ = Inl TypeError"

fun elements :: "json \<Rightarrow> json list" where
  "elements (JArr xs) = xs"
| "elements _ = []"

definition updateTransactionStatus :: "string \<Rightarrow> tx_status \<Rightarrow> world \<Rightarrow> world" where
  "updateTransactionStatus txId st w =
     (let transactions = getTransactionHistory w in
      case findIndex txId transactions of
        Inl e \<Rightarrow> console_error ''Failed to update transaction status:'' (error_text e) w
      | Inr None \<Rightarrow> w
      | Inr (Some txIndex) \<Rightarrow>
          (case js_set ''status'' (JStr (status_text st)) (elements transactions ! txIndex) of
             Inl e \<Rightarrow> console_error ''Failed to update transaction status:'' (error_text e) w
           | Inr x \<Rightarrow>
               (case writeFile (JSON_stringify
                       (JArr ((elements transactions)[txIndex := x]))) w of
                  (Inl e, w') \<Rightarrow>
                     console_error ''Failed to update transaction status:'' (error_text e) w'
                | (Inr u, w') \<Rightarrow> w')))"

section \<open>The remote node and the client library\<close>

text \<open>
  The collaborators outside the repository, as the answers they give during one run:
  key derivation, the node's two queries, the library's conversion of a decimal amount to
  the smallest denomination, submission, and the wait for the receipt (\<open>None\<close>: the wait
  never ends). \<open>Inl\<close> carries the message of the error thrown.
\<close>

text \<open>
  The client library declares the receipt's field as
  \<^verbatim>\<open>status: 'success' | 'reverted'\<close>, a string.
\<close>

record receipt =
  receipt_status :: string

record env =
  privateKeyToAccount :: "string \<Rightarrow> string + string"
  getGasPrice :: "string + int"
  getBalance :: "string \<Rightarrow> string + int"
  parseEther :: "string \<Rightarrow> string + int"
  sendTransaction :: "string \<Rightarrow> string \<Rightarrow> int \<Rightarrow> int \<Rightarrow> string + string"
  waitForTransactionReceipt :: "string \<Rightarrow> (string + receipt) option"
  now :: int

definition GAS_LIMIT :: int where
  "GAS_LIMIT = 21000"

text \<open>A string used as a condition is true unless it is empty.\<close>

definition js_truthy :: "string \<Rightarrow> bool" where
  "js_truthy s = (s \<noteq> [])"

definition rpc :: "rpc_call \<Rightarrow> world \<Rightarrow> world" where
  "rpc c w = w\<lparr>rpc_log := rpc_log w @ [c]\<rparr>"

definition Transaction_failed :: "string \<Rightarrow> string" where
  "Transaction_failed msg = ''Transaction failed: '' @ msg"

definition Insufficient_balance :: string where
  "Insufficient_balance = ''Insufficient balance for transaction and gas fees''"

section \<open>Transfer: MonadWalletManager.sendMonad\<close>

text \<open>
  The result is \<open>None\<close> when the call never returns, \<open>Some (Inl msg)\<close> when it throws
  \<^verbatim>\<open>new Error(msg)\<close> and \<open>Some (Inr hash)\<close> when it returns.
\<close>

definition sendMonad ::
  "env \<Rightarrow> string \<Rightarrow> string \<Rightarrow> string \<Rightarrow> world \<Rightarrow> (string + string) option \<times> world" where
  "sendMonad E senderKey recipient amount w =
     (case privateKeyToAccount E senderKey of
        Inl m \<Rightarrow> (Some (Inl (Transaction_failed m)), w)
      | Inr address \<Rightarrow>
     let w1 = rpc GetGasPrice w in
     (case getGasPrice E of
        Inl m \<Rightarrow> (Some (Inl (Transaction_failed m)), w1)
      | Inr gasPrice \<Rightarrow>
     let gasCost = gasPrice * GAS_LIMIT;
         w2 = rpc (GetBalance address) w1 in
     (case getBalance E address of
        Inl m \<Rightarrow> (Some (Inl (Transaction_failed m)), w2)
      | Inr balance \<Rightarrow>
     (case parseEther E amount of
        Inl m \<Rightarrow> (Some (Inl (Transaction_failed m)), w2)
      | Inr val \<Rightarrow>
     let totalRequired = val + gasCost in
     if balance < totalRequired
     then (Some (Inl (Transaction_failed Insufficient_balance)), w2)
     else
     let w3 = rpc (SendTransaction address recipient val GAS_LIMIT) w2 in
     (case sendTransaction E address recipient val GAS_LIMIT of
        Inl m \<Rightarrow> (Some (Inl (Transaction_failed m)), w3)
      | Inr hash \<Rightarrow>
     let w4 = logTransaction
                \<lparr>tx_id = hash, tx_timestamp = now E, tx_sender = address,
                 tx_recipient = recipient, tx_amount = amount, tx_status = pending\<rparr> w3;
         w5 = rpc (WaitForTransactionReceipt hash) w4 in
     (case waitForTransactionReceipt E hash of
        None \<Rightarrow> (None, w5)
      | Some (Inl m) \<Rightarrow> (Some (Inl (Transaction_failed m)), w5)
      | Some (Inr receipt) \<Rightarrow>
     let w6 = updateTransactionStatus hash
                (if js_truthy (receipt_status receipt) then confirmed else failed) w5
     in (Some (Inr hash), w6)))))))"

section \<open>Regular expressions of the dispatcher\<close>

text \<open>
  The three patterns of \<^verbatim>\<open>main\<close> are anchored at both ends and have no flags, so
  \<^verbatim>\<open>s.match(re)\<close> is not \<^verbatim>\<open>null\<close> exactly when the whole string is in the language of
  the pattern. Matching is by derivatives.
\<close>

datatype rexp =
    Zero
  | One
  | Atom "char \<Rightarrow> bool"
  | Alt rexp rexp
  | Seq rexp rexp
  | Star rexp

fun nullable :: "rexp \<Rightarrow> bool" where
  "nullable Zero = False"
| "nullable One = True"
| "nullable (Atom p) = False"
| "nullable (Alt r s) = (nullable r \<or> nullable s)"
| "nullable (Seq r s) = (nullable r \<and> nullable s)"
| "nullable (Star r) = True"

fun deriv :: "char \<Rightarrow> rexp \<Rightarrow> rexp" where
  "deriv c Zero = Zero"
| "deriv c One = Zero"
| "deriv c (Atom p) = (if p c then One else Zero)"
| "deriv c (Alt r s) = Alt (deriv c r) (deriv c s)"
| "deriv c (Seq r s) =
     (if nullable r then Alt (Seq (deriv c r) s) (deriv c s) else Seq (deriv c r) s)"
| "deriv c (Star r) = Seq (deriv c r) (Star r)"

fun matches :: "rexp \<Rightarrow> string \<Rightarrow> bool" where
  "matches r [] = nullable r"
| "matches r (c # cs) = matches (deriv c r) cs"

text \<open>\<^verbatim>\<open>r{n}\<close>, \<^verbatim>\<open>r?\<close> and \<^verbatim>\<open>r+\<close>.\<close>

primrec repeat_n :: "nat \<Rightarrow> rexp \<Rightarrow> rexp" where
  "repeat_n 0 r = One"
| "repeat_n (Suc n) r = Seq r (repeat_n n r)"

definition Opt :: "rexp \<Rightarrow> rexp" where
  "Opt r = Alt One r"

definition Plus :: "rexp \<Rightarrow> rexp" where
  "Plus r = Seq r (Star r)"

definition Chr :: "char \<Rightarrow> rexp" where
  "Chr c = Atom (\<lambda>d. d = c)"

text \<open>\<^verbatim>\<open>[a-fA-F0-9]\<close> and \<^verbatim>\<open>\d\<close>.\<close>

definition hex_digit :: "char \<Rightarrow> bool" where
  "hex_digit c = (c \<in> set ''abcdefABCDEF0123456789'')"

definition digit :: "char \<Rightarrow> bool" where
  "digit c = (c \<in> set ''0123456789'')"

text \<open>\<^verbatim>\<open>/^0x[a-fA-F0-9]{64}$/\<close>, \<^verbatim>\<open>/^0x[a-fA-F0-9]{40}$/\<close> and \<^verbatim>\<open>/^\d*\.?\d+$/\<close>.\<close>

definition private_key_re :: rexp where
  "private_key_re = Seq (Chr CHR ''0'') (Seq (Chr CHR ''x'') (repeat_n 64 (Atom hex_digit)))"

definition address_re :: rexp where
  "address_re = Seq (Chr CHR ''0'') (Seq (Chr CHR ''x'') (repeat_n 40 (Atom hex_digit)))"

definition amount_re :: rexp where
  "amount_re = Seq (Star (Atom digit)) (Seq (Opt (Chr CHR ''.'')) (Plus (Atom digit)))"

text \<open>\<^verbatim>\<open>!x?.match(re)\<close>: true when the argument is missing or does not match.\<close>

definition no_match :: "string option \<Rightarrow> rexp \<Rightarrow> bool" where
  "no_match x re = (case x of None \<Rightarrow> True | Some s \<Rightarrow> \<not> matches re s)"

text \<open>
  The language of a pattern, to say what the matcher decides: concatenation, iteration
  and the strings of each pattern.
\<close>

definition conc :: "string set \<Rightarrow> string set \<Rightarrow> string set" where
  "conc A B = {u @ v | u v. u \<in> A \<and> v \<in> B}"

inductive_set star :: "string set \<Rightarrow> string set" for A :: "string set" where
  star_empty: "[] \<in> star A"
| star_more: "u \<in> A \<Longrightarrow> v \<in> star A \<Longrightarrow> u @ v \<in> star A"

fun lang :: "rexp \<Rightarrow> string set" where
  "lang Zero = {}"
| "lang One = {[]}"
| "lang (Atom p) = {[c] | c. p c}"
| "lang (Alt r s) = lang r \<union> lang s"
| "lang (Seq r s) = conc (lang r) (lang s)"
| "lang (Star r) = star (lang r)"

section \<open>Dispatcher: the \<^verbatim>\<open>transfer\<close> case of main\<close>

text \<open>\<^verbatim>\<open>process.argv[i]\<close>; \<open>None\<close> stands for \<^verbatim>\<open>undefined\<close>.\<close>

definition argv_at :: "string list \<Rightarrow> nat \<Rightarrow> string option" where
  "argv_at argv i = (if i < length argv then Some (argv ! i) else None)"

text \<open>
  The \<^verbatim>\<open>catch\<close> of \<^verbatim>\<open>main\<close>: print the message (the symbol before \<^verbatim>\<open>Error:\<close> is left
  out) and leave with exit code 1.
\<close>

definition exit_error :: "string \<Rightarrow> world \<Rightarrow> nat option \<times> world" where
  "exit_error msg w = (Some 1, console_error ''Error:'' msg w)"

text \<open>
  The result is the exit code, \<open>None\<close> when the process never leaves the wait. Lines
  printed with \<^verbatim>\<open>console.log\<close> are not part of the state. The last branch cannot be
  reached: a missing argument fails its check.
\<close>

definition main_transfer :: "env \<Rightarrow> string list \<Rightarrow> world \<Rightarrow> nat option \<times> world" where
  "main_transfer E argv w =
     (let privateKey = argv_at argv 3; toAddress = argv_at argv 4; amount = argv_at argv 5 in
      if no_match privateKey private_key_re then exit_error ''Invalid private key format'' w
      else if no_match toAddress address_re then exit_error ''Invalid Monad address format'' w
      else if no_match amount amount_re then exit_error ''Invalid amount format'' w
      else (case (privateKey, toAddress, amount) of
              (Some k, Some a, Some m) \<Rightarrow>
                (case sendMonad E k a m w of
                   (None, w') \<Rightarrow> (None, w')
                 | (Some (Inl msg), w') \<Rightarrow> exit_error msg w'
                 | (Some (Inr hash), w') \<Rightarrow> (Some 0, w'))
            | _ \<Rightarrow> (Some 1, w)))"

section \<open>The formats in the words of the specification\<close>

text \<open>
  A private key is the prefix \<open>0x\<close> and 64 hexadecimal digits, an address the prefix and 40.
  An amount is an optional integer part and an optional fractional part (a point and its
  digits) with at least one digit, no sign and no exponent.
\<close>

definition hex_format :: "nat \<Rightarrow> string \<Rightarrow> bool" where
  "hex_format n s = (take 2 s = ''0x'' \<and> length (drop 2 s) = n \<and> list_all hex_digit (drop 2 s))"

definition amount_format :: "string \<Rightarrow> bool" where
  "amount_format s =
     (let ip = takeWhile digit s; rest = dropWhile digit s in
      if rest = [] then ip \<noteq> []
      else hd rest = CHR ''.'' \<and> tl rest \<noteq> [] \<and> list_all digit (tl rest))"

text \<open>A missing argument is malformed; a present one is malformed when it is not in the format.\<close>

definition malformed :: "(string \<Rightarrow> bool) \<Rightarrow> string option \<Rightarrow> bool" where
  "malformed fmt x = (case x of None \<Rightarrow> True | Some s \<Rightarrow> \<not> fmt s)"

text \<open>The records of a ledger value and what a reader finds in them.\<close>

definition id_of :: "json \<Rightarrow> json option" where
  "id_of x = (case js_get ''id'' x of Inl e \<Rightarrow> None | Inr v \<Rightarrow> v)"

definition status_of :: "json \<Rightarrow> json option" where
  "status_of x = (case js_get ''status'' x of Inl e \<Rightarrow> None | Inr v \<Rightarrow> v)"

definition records_with_id :: "string \<Rightarrow> json \<Rightarrow> json list" where
  "records_with_id txId v = filter (\<lambda>x. id_of x = Some (JStr txId)) (elements v)"

text \<open>The submissions among the calls made to the node.\<close>

fun is_submission :: "rpc_call \<Rightarrow> bool" where
  "is_submission (SendTransaction a b v g) = True"
| "is_submission _ = False"

definition submissions :: "world \<Rightarrow> rpc_call list" where
  "submissions w = filter is_submission (rpc_log w)"

text \<open>
  The records held by the ledger file, whether or not it can be read at the moment, and
  what it means that the records \<open>xs\<close> are all still there in \<open>ys\<close>: in the same places,
  with every property but the status as it was.
\<close>

definition persisted :: "world \<Rightarrow> json list" where
  "persisted w = (case log_file w of Some (JsonText v) \<Rightarrow> elements v | _ \<Rightarrow> [])"

definition without_status :: "json \<Rightarrow> json" where
  "without_status x = (case x of JObj ps \<Rightarrow> JObj (AList.delete ''status'' ps) | _ \<Rightarrow> x)"

definition kept :: "json list \<Rightarrow> json list \<Rightarrow> bool" where
  "kept xs ys = (length xs \<le> length ys
                 \<and> map without_status (take (length xs) ys) = map without_status xs)"

text \<open>
  The state of \<open>sendMonad\<close> once the node has accepted the transfer with hash \<open>h\<close>: the
  three calls are made, the pending record is logged and the wait has begun.
\<close>

definition submitted :: "env \<Rightarrow> string \<Rightarrow> string \<Rightarrow> string \<Rightarrow> string \<Rightarrow> int \<Rightarrow> world \<Rightarrow> world" where
  "submitted E a r amt h v w =
     rpc (WaitForTransactionReceipt h)
       (logTransaction
          \<lparr>tx_id = h, tx_timestamp = now E, tx_sender = a,
           tx_recipient = r, tx_amount = amt, tx_status = pending\<rparr>
          (rpc (SendTransaction a r v GAS_LIMIT) (rpc (GetBalance a) (rpc GetGasPrice w))))"

section \<open>Properties of the ledger store\<close>

lemma findIndex_from_found:
  "findIndex_from i txId xs = Inr (Some j) \<Longrightarrow>
     i \<le> j \<and> j - i < length xs \<and> js_get ''id'' (xs ! (j - i)) = Inr (Some (JStr txId))"
proof (induction xs arbitrary: i)
  case Nil
  then show ?case by simp
next
  case (Cons x xs)
  show ?case
  proof (cases "js_get ''id'' x")
    case (Inl e)
    with Cons.prems show ?thesis by simp
  next
    case (Inr v)
    show ?thesis
    proof (cases "v = Some (JStr txId)")
      case True
      with Inr Cons.prems show ?thesis by simp
    next
      case False
      with Inr Cons.prems have "findIndex_from (Suc i) txId xs = Inr (Some j)" by simp
      from Cons.IH[OF this] show ?thesis
        by (auto simp: nth_Cons split: nat.splits) (metis Suc_diff_Suc Suc_le_lessD nat.inject)
    qed
  qed
qed

lemma findIndex_found:
  "findIndex txId h = Inr (Some j) \<Longrightarrow>
     j < length (elements h) \<and> js_get ''id'' (elements h ! j) = Inr (Some (JStr txId))"
  using findIndex_from_found[of 0 txId "elements h" j]
  by (cases h) auto

lemma findIndex_found_records:
  "findIndex txId h = Inr (Some j) \<Longrightarrow> records_with_id txId h \<noteq> []"
proof -
  assume a: "findIndex txId h = Inr (Some j)"
  from findIndex_found[OF a] have "elements h ! j \<in> set (elements h)"
    and "id_of (elements h ! j) = Some (JStr txId)"
    by (auto simp: id_of_def)
  then show ?thesis
    by (auto simp: records_with_id_def filter_empty_conv)
qed

lemma findIndex_from_no_null:
  "JNull \<notin> set xs \<Longrightarrow> \<exists>r. findIndex_from i txId xs = Inr r"
proof (induction xs arbitrary: i)
  case Nil
  then show ?case by simp
next
  case (Cons x xs)
  then show ?case by (cases x) auto
qed

text \<open>
  C5. When no record of the persisted ledger has the given id, \<open>updateTransactionStatus\<close>
  leaves the ledger file as it is and performs no write; on an array without \<open>null\<close>
  elements it changes nothing at all, so nothing is logged either.
\<close>

theorem updateTransactionStatus_absent_id:
  assumes "records_with_id txId (getTransactionHistory w) = []"
  shows "log_file (updateTransactionStatus txId st w) = log_file w
       \<and> write_results (updateTransactionStatus txId st w) = write_results w
       \<and> ((\<exists>xs. getTransactionHistory w = JArr xs \<and> JNull \<notin> set xs)
            \<longrightarrow> updateTransactionStatus txId st w = w)"
proof -
  let ?h = "getTransactionHistory w"
  show ?thesis
  proof (cases "findIndex txId ?h")
    case (Inl e)
    then have "updateTransactionStatus txId st w =
        console_error ''Failed to update transaction status:'' (error_text e) w"
      by (simp add: updateTransactionStatus_def)
    moreover have nx: "\<not> (\<exists>xs. ?h = JArr xs \<and> JNull \<notin> set xs)"
    proof
      assume "\<exists>xs. ?h = JArr xs \<and> JNull \<notin> set xs"
      then obtain xs where xs: "?h = JArr xs" "JNull \<notin> set xs" by blast
      from findIndex_from_no_null[OF xs(2), of 0 txId] Inl xs(1) show False by auto
    qed
    ultimately have "log_file (updateTransactionStatus txId st w) = log_file w"
      and "write_results (updateTransactionStatus txId st w) = write_results w"
      by (simp_all add: console_error_def)
    with nx show ?thesis by blast
  next
    case (Inr r)
    show ?thesis
    proof (cases r)
      case None
      with Inr show ?thesis by (simp add: updateTransactionStatus_def)
    next
      case (Some j)
      with Inr assms findIndex_found_records show ?thesis by blast
    qed
  qed
qed

theorem updateTransactionStatus_absent_id_witness:
  "records_with_id ''0xff''
     (getTransactionHistory
        \<lparr>log_file = Some (JsonText (JArr [JObj [(''id'', JStr ''0xaa''), (''status'', JStr ''pending'')]])),
         readable = True, write_results = [], console = [], rpc_log = []\<rparr>) = []
   \<and> updateTransactionStatus ''0xff'' confirmed
        \<lparr>log_file = Some (JsonText (JArr [JObj [(''id'', JStr ''0xaa''), (''status'', JStr ''pending'')]])),
         readable = True, write_results = [], console = [], rpc_log = []\<rparr>
     = \<lparr>log_file = Some (JsonText (JArr [JObj [(''id'', JStr ''0xaa''), (''status'', JStr ''pending'')]])),
         readable = True, write_results = [], console = [], rpc_log = []\<rparr>"
proof -
  let ?w = "\<lparr>log_file = Some (JsonText (JArr [JObj [(''id'', JStr ''0xaa''), (''status'', JStr ''pending'')]])),
         readable = True, write_results = [], console = [], rpc_log = []\<rparr>"
  have h: "getTransactionHistory ?w = JArr [JObj [(''id'', JStr ''0xaa''), (''status'', JStr ''pending'')]]"
    by (simp add: getTransactionHistory_def readFile_def)
  have r: "records_with_id ''0xff'' (getTransactionHistory ?w) = []"
    by (simp add: h records_with_id_def id_of_def)
  from updateTransactionStatus_absent_id[OF r, of confirmed] h r show ?thesis by simp
qed

lemma status_text_inj: "status_text a = status_text b \<Longrightarrow> a = b"
  by (cases a; cases b) (simp_all add: status_text_def)

lemma tx_to_json_inj: "tx_to_json a = tx_to_json b \<Longrightarrow> a = b"
  by (cases a; cases b) (auto simp: tx_to_json_def dest: status_text_inj)

lemma getTransactionHistory_array:
  "readable w \<Longrightarrow> log_file w = Some (JsonText v) \<Longrightarrow> getTransactionHistory w = v"
  by (simp add: getTransactionHistory_def readFile_def)

lemma writeFile_ok:
  "write_results w = [] \<or> hd (write_results w) \<Longrightarrow>
     fst (writeFile d w) = Inr () \<and> log_file (snd (writeFile d w)) = Some d
     \<and> readable (snd (writeFile d w)) = readable w
     \<and> console (snd (writeFile d w)) = console w
     \<and> rpc_log (snd (writeFile d w)) = rpc_log w
     \<and> write_results (snd (writeFile d w)) = tl (write_results w)"
  by (cases "write_results w") (auto simp: writeFile_def)

text \<open>
  C6. On a readable ledger file holding an array, when the write succeeds,
  \<open>logTransaction\<close> followed by \<open>getTransactionHistory\<close> returns the previous sequence
  with the new record at the end, and the stored object determines every field of the
  record.
\<close>

theorem logTransaction_then_getTransactionHistory:
  assumes "readable w" and "log_file w = Some (JsonText (JArr xs))"
    and "write_results w = [] \<or> hd (write_results w)"
  shows "getTransactionHistory (logTransaction tx w) = JArr (xs @ [tx_to_json tx])
       \<and> (\<forall>tx'. tx_to_json tx' = tx_to_json tx \<longrightarrow> tx' = tx)"
proof -
  have h: "getTransactionHistory w = JArr xs"
    using assms(1,2) by (rule getTransactionHistory_array)
  let ?d = "JSON_stringify (JArr (xs @ [tx_to_json tx]))"
  from writeFile_ok[OF assms(3), of ?d]
  have "logTransaction tx w = snd (writeFile ?d w)"
    by (cases "writeFile ?d w") (simp add: logTransaction_def h)
  with writeFile_ok[OF assms(3), of ?d] assms(1)
  have "getTransactionHistory (logTransaction tx w) = JArr (xs @ [tx_to_json tx])"
    by (simp add: getTransactionHistory_def readFile_def JSON_stringify_def)
  then show ?thesis using tx_to_json_inj by blast
qed

theorem logTransaction_then_getTransactionHistory_witness:
  "getTransactionHistory
     (logTransaction
        \<lparr>tx_id = ''0xbb'', tx_timestamp = 1700000000000, tx_sender = ''0x01'',
         tx_recipient = ''0x02'', tx_amount = ''1.5'', tx_status = pending\<rparr>
        \<lparr>log_file = Some (JsonText (JArr [JObj [(''id'', JStr ''0xaa'')]])), readable = True,
         write_results = [True], console = [], rpc_log = []\<rparr>)
   = JArr [JObj [(''id'', JStr ''0xaa'')],
           JObj [(''id'', JStr ''0xbb''), (''timestamp'', JNum 1700000000000),
                 (''sender'', JStr ''0x01''), (''recipient'', JStr ''0x02''),
                 (''amount'', JStr ''1.5''), (''status'', JStr ''pending'')]]"
  using logTransaction_then_getTransactionHistory
    [of "\<lparr>log_file = Some (JsonText (JArr [JObj [(''id'', JStr ''0xaa'')]])), readable = True,
         write_results = [True], console = [], rpc_log = []\<rparr>"
        "[JObj [(''id'', JStr ''0xaa'')]]"
        "\<lparr>tx_id = ''0xbb'', tx_timestamp = 1700000000000, tx_sender = ''0x01'',
         tx_recipient = ''0x02'', tx_amount = ''1.5'', tx_status = pending\<rparr>"]
  by (simp add: tx_to_json_def status_text_def)

text \<open>
  C7. \<open>getTransactionHistory\<close> never raises (it is a total function to JSON values): when
  the file is absent, cannot be read, or holds a text that does not parse (the empty text
  among them), it returns the empty sequence.
\<close>

theorem getTransactionHistory_fallback:
  "\<not> readable w \<or> log_file w = None \<or> (\<exists>s. log_file w = Some (Unparseable s))
     \<Longrightarrow> getTransactionHistory w = JArr []"
  by (auto simp: getTransactionHistory_def readFile_def)

theorem getTransactionHistory_fallback_witness:
  "log_file \<lparr>log_file = Some (Unparseable []), readable = True, write_results = [],
             console = [], rpc_log = []\<rparr> = Some (Unparseable [])
   \<and> getTransactionHistory \<lparr>log_file = Some (Unparseable []), readable = True,
        write_results = [], console = [], rpc_log = []\<rparr> = JArr []"
  using getTransactionHistory_fallback
    [of "\<lparr>log_file = Some (Unparseable []), readable = True, write_results = [],
          console = [], rpc_log = []\<rparr>"]
  by simp

text \<open>
  C10. \<open>getTransactionHistory\<close> does not look at the shape of what it parsed: whenever the
  file is read and its text parses to a value, that value is returned as it is, array or
  not.
\<close>

theorem getTransactionHistory_no_validation:
  "readable w \<Longrightarrow> log_file w = Some (JsonText v) \<Longrightarrow>
     getTransactionHistory w = v \<and> readFile w = Inr (JsonText v) \<and> JSON_parse (JsonText v) = Inr v"
  by (simp add: getTransactionHistory_def readFile_def)

theorem getTransactionHistory_no_validation_witness:
  "getTransactionHistory \<lparr>log_file = Some (JsonText (JObj [(''a'', JNum 1)])), readable = True,
        write_results = [], console = [], rpc_log = []\<rparr> = JObj [(''a'', JNum 1)]"
  using getTransactionHistory_no_validation
    [of "\<lparr>log_file = Some (JsonText (JObj [(''a'', JNum 1)])), readable = True,
        write_results = [], console = [], rpc_log = []\<rparr>" "JObj [(''a'', JNum 1)]"]
  by simp

section \<open>Properties of the transfer\<close>

lemma logTransaction_rpc_log: "rpc_log (logTransaction tx w) = rpc_log w"
  by (auto simp: logTransaction_def console_error_def writeFile_def
           split: sum.splits prod.splits list.splits if_splits)

lemma updateTransactionStatus_rpc_log: "rpc_log (updateTransactionStatus txId st w) = rpc_log w"
  by (auto simp: updateTransactionStatus_def console_error_def writeFile_def Let_def
           split: sum.splits prod.splits list.splits if_splits option.splits)

lemma sendMonad_insufficient:
  assumes "privateKeyToAccount E k = Inr a" "getGasPrice E = Inr gp"
    "getBalance E a = Inr bal" "parseEther E amt = Inr v" "bal < v + gp * GAS_LIMIT"
  shows "sendMonad E k r amt w =
     (Some (Inl (Transaction_failed Insufficient_balance)), rpc (GetBalance a) (rpc GetGasPrice w))"
  using assms by (simp add: sendMonad_def)

lemma sendMonad_rejected:
  assumes "privateKeyToAccount E k = Inr a" "getGasPrice E = Inr gp"
    "getBalance E a = Inr bal" "parseEther E amt = Inr v" "\<not> bal < v + gp * GAS_LIMIT"
    "sendTransaction E a r v GAS_LIMIT = Inl m"
  shows "sendMonad E k r amt w =
     (Some (Inl (Transaction_failed m)),
      rpc (SendTransaction a r v GAS_LIMIT) (rpc (GetBalance a) (rpc GetGasPrice w)))"
  using assms by (simp add: sendMonad_def)

lemma sendMonad_accepted:
  assumes "privateKeyToAccount E k = Inr a" "getGasPrice E = Inr gp"
    "getBalance E a = Inr bal" "parseEther E amt = Inr v" "\<not> bal < v + gp * GAS_LIMIT"
    "sendTransaction E a r v GAS_LIMIT = Inr h"
  shows "sendMonad E k r amt w =
     (case waitForTransactionReceipt E h of
        None \<Rightarrow> (None, submitted E a r amt h v w)
      | Some (Inl m) \<Rightarrow> (Some (Inl (Transaction_failed m)), submitted E a r amt h v w)
      | Some (Inr rc) \<Rightarrow>
          (Some (Inr h),
           updateTransactionStatus h
             (if js_truthy (receipt_status rc) then confirmed else failed)
             (submitted E a r amt h v w)))"
  using assms by (simp add: sendMonad_def submitted_def split: option.splits sum.splits)

lemma submissions_rpc:
  "submissions (rpc c w) = (if is_submission c then submissions w @ [c] else submissions w)"
  by (simp add: submissions_def rpc_def)

lemma submissions_submitted:
  "submissions (submitted E a r amt h v w) = submissions w @ [SendTransaction a r v GAS_LIMIT]"
  by (simp add: submitted_def submissions_def rpc_def logTransaction_rpc_log)

lemma submissions_updateTransactionStatus:
  "submissions (updateTransactionStatus txId st w) = submissions w"
  by (simp add: submissions_def updateTransactionStatus_rpc_log)

text \<open>
  C2. When the key, the gas price, the balance and the amount are obtained, \<open>sendMonad\<close>
  raises the insufficient-balance error without any submission exactly when the balance
  is below the amount plus gas price times 21000; whenever the balance is not below that
  total, and so when it equals it, exactly one submission is made, with the amount as
  value and 21000 as gas limit.
\<close>

theorem sendMonad_insufficient_iff:
  assumes "privateKeyToAccount E k = Inr a" "getGasPrice E = Inr gp"
    "getBalance E a = Inr bal" "parseEther E amt = Inr v"
  shows "((fst (sendMonad E k r amt w) = Some (Inl (Transaction_failed Insufficient_balance))
          \<and> submissions (snd (sendMonad E k r amt w)) = submissions w)
         \<longleftrightarrow> bal < v + gp * 21000)
       \<and> (v + gp * 21000 \<le> bal \<longrightarrow>
         submissions (snd (sendMonad E k r amt w)) = submissions w @ [SendTransaction a r v 21000])
       \<and> (bal = v + gp * 21000 \<longrightarrow>
         submissions (snd (sendMonad E k r amt w)) = submissions w @ [SendTransaction a r v 21000])"
proof -
  have ge: "\<not> bal < v + gp * GAS_LIMIT \<Longrightarrow>
      submissions (snd (sendMonad E k r amt w)) = submissions w @ [SendTransaction a r v GAS_LIMIT]"
  proof -
    assume n: "\<not> bal < v + gp * GAS_LIMIT"
    show ?thesis
    proof (cases "sendTransaction E a r v GAS_LIMIT")
      case (Inl m)
      from sendMonad_rejected[OF assms n Inl] show ?thesis
        by (simp add: submissions_rpc)
    next
      case (Inr h)
      from sendMonad_accepted[OF assms n Inr, of w] show ?thesis
        by (auto simp: submissions_submitted submissions_updateTransactionStatus
                 split: option.splits sum.splits)
    qed
  qed
  have iff: "(fst (sendMonad E k r amt w) = Some (Inl (Transaction_failed Insufficient_balance))
          \<and> submissions (snd (sendMonad E k r amt w)) = submissions w)
         \<longleftrightarrow> bal < v + gp * 21000"
  proof (cases "bal < v + gp * GAS_LIMIT")
    case True
    from sendMonad_insufficient[OF assms True] True show ?thesis
      by (simp add: submissions_rpc GAS_LIMIT_def)
  next
    case False
    from ge[OF False] False show ?thesis by (simp add: GAS_LIMIT_def)
  qed
  have geq: "v + gp * 21000 \<le> bal \<longrightarrow>
         submissions (snd (sendMonad E k r amt w)) = submissions w @ [SendTransaction a r v 21000]"
    using ge by (simp add: GAS_LIMIT_def)
  then have eq: "bal = v + gp * 21000 \<longrightarrow>
         submissions (snd (sendMonad E k r amt w)) = submissions w @ [SendTransaction a r v 21000]"
    by simp
  from iff geq eq show ?thesis by (intro conjI)
qed

lemma rpc_fields [simp]:
  "log_file (rpc c w) = log_file w" "readable (rpc c w) = readable w"
  "write_results (rpc c w) = write_results w" "console (rpc c w) = console w"
  by (simp_all add: rpc_def)

lemma getTransactionHistory_rpc [simp]:
  "getTransactionHistory (rpc c w) = getTransactionHistory w"
  by (simp add: getTransactionHistory_def readFile_def)

lemma writeFile_fail:
  "write_results w = False # bs \<Longrightarrow>
     writeFile d w = (Inl IOError, w\<lparr>write_results := bs\<rparr>)"
  by (simp add: writeFile_def)

lemma writeFile_cases:
  "writeFile d w = (Inr (), w\<lparr>log_file := Some d, write_results := tl (write_results w)\<rparr>)
   \<or> writeFile d w = (Inl IOError, w\<lparr>write_results := tl (write_results w)\<rparr>)"
  by (cases "write_results w") (auto simp: writeFile_def)

lemma logTransaction_cases:
  obtains (not_array) "\<forall>xs. getTransactionHistory w \<noteq> JArr xs"
      "logTransaction tx w = console_error ''Failed to log transaction:'' (error_text TypeError) w"
  | (write_failed) xs where "getTransactionHistory w = JArr xs"
      "logTransaction tx w = console_error ''Failed to log transaction:'' (error_text IOError)
          (w\<lparr>write_results := tl (write_results w)\<rparr>)"
      "write_results w \<noteq> []" "\<not> hd (write_results w)"
  | (written) xs where "getTransactionHistory w = JArr xs"
      "logTransaction tx w =
         w\<lparr>log_file := Some (JsonText (JArr (xs @ [tx_to_json tx]))),
           write_results := tl (write_results w)\<rparr>"
      "write_results w = [] \<or> hd (write_results w)"
proof (cases "getTransactionHistory w")
  case (JArr xs)
  show ?thesis
  proof (cases "write_results w = [] \<or> hd (write_results w)")
    case True
    then have "logTransaction tx w =
         w\<lparr>log_file := Some (JsonText (JArr (xs @ [tx_to_json tx]))),
           write_results := tl (write_results w)\<rparr>"
      by (cases "write_results w")
         (auto simp: logTransaction_def JArr writeFile_def JSON_stringify_def)
    from written[OF JArr this True] show ?thesis .
  next
    case False
    then obtain bs where bs: "write_results w = False # bs"
      by (cases "write_results w") auto
    then have "logTransaction tx w =
        console_error ''Failed to log transaction:'' (error_text IOError)
          (w\<lparr>write_results := tl (write_results w)\<rparr>)"
      by (simp add: logTransaction_def JArr writeFile_def)
    from write_failed[OF JArr this] bs show ?thesis by simp
  qed
qed (auto simp: logTransaction_def intro: not_array)


lemma js_get_Some_obj: "js_get k y = Inr (Some v) \<Longrightarrow> \<exists>ps. y = JObj ps"
  by (cases y) auto

lemma js_set_status_record:
  "js_set ''status'' (JStr (status_text st)) (tx_to_json tx) = Inr (tx_to_json (tx\<lparr>tx_status := st\<rparr>))"
  by (simp add: tx_to_json_def)

lemma js_get_id_record: "js_get ''id'' (tx_to_json tx) = Inr (Some (JStr (tx_id tx)))"
  by (simp add: tx_to_json_def)

lemma findIndex_from_None:
  "findIndex_from n h ys = Inr None \<Longrightarrow> \<forall>y\<in>set ys. js_get ''id'' y \<noteq> Inr (Some (JStr h))"
  by (induction ys arbitrary: n) (auto split: sum.splits if_splits)

lemma updateTransactionStatus_found:
  assumes "getTransactionHistory w = JArr ys" "findIndex_from 0 h ys = Inr (Some i)"
  shows "\<exists>x. js_set ''status'' (JStr (status_text st)) (ys ! i) = Inr x \<and>
     updateTransactionStatus h st w =
       (if write_results w = [] \<or> hd (write_results w)
        then w\<lparr>log_file := Some (JsonText (JArr (ys[i := x]))),
               write_results := tl (write_results w)\<rparr>
        else console_error ''Failed to update transaction status:'' (error_text IOError)
               (w\<lparr>write_results := tl (write_results w)\<rparr>))"
proof -
  from findIndex_from_found[OF assms(2)] obtain ps where ps: "ys ! i = JObj ps"
    using js_get_Some_obj by fastforce
  let ?x = "JObj (AList.update ''status'' (JStr (status_text st)) ps)"
  have "updateTransactionStatus h st w =
       (if write_results w = [] \<or> hd (write_results w)
        then w\<lparr>log_file := Some (JsonText (JArr (ys[i := ?x]))),
               write_results := tl (write_results w)\<rparr>
        else console_error ''Failed to update transaction status:'' (error_text IOError)
               (w\<lparr>write_results := tl (write_results w)\<rparr>))"
    using assms ps
    by (cases "write_results w")
       (auto simp: updateTransactionStatus_def writeFile_def JSON_stringify_def)
  with ps show ?thesis by simp
qed

lemma updateTransactionStatus_console:
  "console (updateTransactionStatus h st w) = console w
   \<or> (\<exists>m. console (updateTransactionStatus h st w) =
           console w @ [(''Failed to update transaction status:'', m)])"
  by (auto simp: updateTransactionStatus_def console_error_def writeFile_def Let_def
           split: sum.splits prod.splits list.splits if_splits option.splits)

lemma logTransaction_console:
  "console (logTransaction tx w) = console w
   \<or> (\<exists>m. console (logTransaction tx w) = console w @ [(''Failed to log transaction:'', m)])"
  by (cases tx w rule: logTransaction_cases) (auto simp: console_error_def)

lemma findIndex_from_append_record:
  assumes "JNull \<notin> set xs" "js_get ''id'' t = Inr (Some (JStr h))"
  shows "\<exists>i. findIndex_from n h (xs @ [t]) = Inr (Some i)"
  using assms(1)
proof (induction xs arbitrary: n)
  case Nil
  with assms(2) show ?case by simp
next
  case (Cons x xs)
  then show ?case by (cases x) auto
qed

lemma submitted_write_failed:
  assumes "write_results w \<noteq> []" "\<not> hd (write_results w)"
  shows "\<exists>m. (''Failed to log transaction:'', m) \<in> set (console (submitted E a r amt h v w))"
proof -
  let ?w3 = "rpc (SendTransaction a r v GAS_LIMIT) (rpc (GetBalance a) (rpc GetGasPrice w))"
  let ?tx = "\<lparr>tx_id = h, tx_timestamp = now E, tx_sender = a,
           tx_recipient = r, tx_amount = amt, tx_status = pending\<rparr>"
  have "\<exists>m. console (logTransaction ?tx ?w3) = console ?w3 @ [(''Failed to log transaction:'', m)]"
    using assms by (cases ?tx ?w3 rule: logTransaction_cases) (auto simp: console_error_def)
  then show ?thesis by (auto simp: submitted_def)
qed

lemma submitted_written:
  assumes "getTransactionHistory w = JArr xs" "readable w"
    "write_results w = [] \<or> hd (write_results w)"
  shows "getTransactionHistory (submitted E a r amt h v w) =
           JArr (xs @ [tx_to_json \<lparr>tx_id = h, tx_timestamp = now E, tx_sender = a,
                        tx_recipient = r, tx_amount = amt, tx_status = pending\<rparr>])"
    and "write_results (submitted E a r amt h v w) = tl (write_results w)"
    and "console (submitted E a r amt h v w) = console w"
    and "readable (submitted E a r amt h v w)"
proof -
  let ?w3 = "rpc (SendTransaction a r v GAS_LIMIT) (rpc (GetBalance a) (rpc GetGasPrice w))"
  let ?tx = "\<lparr>tx_id = h, tx_timestamp = now E, tx_sender = a,
           tx_recipient = r, tx_amount = amt, tx_status = pending\<rparr>"
  have eq: "logTransaction ?tx ?w3 =
         ?w3\<lparr>log_file := Some (JsonText (JArr (xs @ [tx_to_json ?tx]))),
           write_results := tl (write_results ?w3)\<rparr>"
    using assms by (cases ?tx ?w3 rule: logTransaction_cases) auto
  show "getTransactionHistory (submitted E a r amt h v w) = JArr (xs @ [tx_to_json ?tx])"
    using assms(2) by (simp add: submitted_def eq getTransactionHistory_def readFile_def)
  show "write_results (submitted E a r amt h v w) = tl (write_results w)"
    by (simp add: submitted_def eq)
  show "console (submitted E a r amt h v w) = console w"
    by (simp add: submitted_def eq)
  show "readable (submitted E a r amt h v w)"
    using assms(2) by (simp add: submitted_def eq)
qed

lemma console_updateTransactionStatus_mono:
  "set (console w) \<subseteq> set (console (updateTransactionStatus h st w))"
  using updateTransactionStatus_console[of h st w] by auto

text \<open>
  C4. Once the node has accepted the transfer and the wait yields a receipt, \<open>sendMonad\<close>
  returns the hash whatever the state of the store and whatever the outcomes of the two
  writes; a failed first write and a failed second write are each logged on the console.
\<close>

theorem sendMonad_persistence_swallowed:
  assumes "privateKeyToAccount E k = Inr a" "getGasPrice E = Inr gp"
    "getBalance E a = Inr bal" "parseEther E amt = Inr v" "\<not> bal < v + gp * GAS_LIMIT"
    "sendTransaction E a r v GAS_LIMIT = Inr h"
    "waitForTransactionReceipt E h = Some (Inr rc)"
  shows "fst (sendMonad E k r amt w) = Some (Inr h)
     \<and> (write_results w \<noteq> [] \<and> \<not> hd (write_results w) \<longrightarrow>
          (\<exists>m. (''Failed to log transaction:'', m) \<in> set (console (snd (sendMonad E k r amt w)))))
     \<and> (\<forall>xs bs. getTransactionHistory w = JArr xs \<and> JNull \<notin> set xs \<and> readable w
            \<and> write_results w = True # False # bs \<longrightarrow>
          (''Failed to update transaction status:'', error_text IOError)
             \<in> set (console (snd (sendMonad E k r amt w))))"
proof -
  define st where "st = (if js_truthy (receipt_status rc) then confirmed else failed)"
  let ?w5 = "submitted E a r amt h v w"
  let ?tx = "\<lparr>tx_id = h, tx_timestamp = now E, tx_sender = a,
           tx_recipient = r, tx_amount = amt, tx_status = pending\<rparr>"
  have sm: "sendMonad E k r amt w = (Some (Inr h), updateTransactionStatus h st ?w5)"
    using sendMonad_accepted[OF assms(1-6), of w] assms(7) by (simp add: st_def)
  have one: "\<exists>m. (''Failed to log transaction:'', m) \<in> set (console (snd (sendMonad E k r amt w)))"
    if "write_results w \<noteq> []" "\<not> hd (write_results w)"
    using submitted_write_failed[OF that, of E a r amt h v]
      console_updateTransactionStatus_mono[of ?w5 h st] by (auto simp: sm)
  have two: "(''Failed to update transaction status:'', error_text IOError)
             \<in> set (console (snd (sendMonad E k r amt w)))"
    if h: "getTransactionHistory w = JArr xs" and nn: "JNull \<notin> set xs" and rd: "readable w"
      and wr: "write_results w = True # False # bs" for xs bs
  proof -
    have ok: "write_results w = [] \<or> hd (write_results w)" using wr by simp
    note sw = submitted_written[OF h rd ok, of E a r amt h v]
    obtain i where i: "findIndex_from 0 h (xs @ [tx_to_json ?tx]) = Inr (Some i)"
      using findIndex_from_append_record[OF nn, of "tx_to_json ?tx" h 0] js_get_id_record[of ?tx]
      by auto
    from updateTransactionStatus_found[OF sw(1) i, of st] sw(2) wr
    have "updateTransactionStatus h st ?w5 =
        console_error ''Failed to update transaction status:'' (error_text IOError)
               (?w5\<lparr>write_results := tl (write_results ?w5)\<rparr>)"
      by auto
    then show ?thesis by (simp add: sm console_error_def)
  qed
  from sm one two show ?thesis by (intro conjI allI impI) auto
qed

lemma sendMonad_returns:
  assumes "sendMonad E k r amt w = (Some (Inr h), w')"
  obtains a gp bal v rc where
    "privateKeyToAccount E k = Inr a" "getGasPrice E = Inr gp"
    "getBalance E a = Inr bal" "parseEther E amt = Inr v" "\<not> bal < v + gp * GAS_LIMIT"
    "sendTransaction E a r v GAS_LIMIT = Inr h"
    "waitForTransactionReceipt E h = Some (Inr rc)"
    "w' = updateTransactionStatus h
             (if js_truthy (receipt_status rc) then confirmed else failed)
             (submitted E a r amt h v w)"
  using assms
  by (auto simp: sendMonad_def submitted_def Let_def
           split: sum.splits option.splits if_splits)

lemma submitted_quiet:
  assumes "console (submitted E a r amt h v w) = console w"
  shows "\<exists>xs. getTransactionHistory w = JArr xs \<and> (write_results w = [] \<or> hd (write_results w))"
proof -
  let ?w3 = "rpc (SendTransaction a r v GAS_LIMIT) (rpc (GetBalance a) (rpc GetGasPrice w))"
  let ?tx = "\<lparr>tx_id = h, tx_timestamp = now E, tx_sender = a,
           tx_recipient = r, tx_amount = amt, tx_status = pending\<rparr>"
  from assms have q: "console (logTransaction ?tx ?w3) = console ?w3"
    by (simp add: submitted_def)
  show ?thesis
  proof (cases ?tx ?w3 rule: logTransaction_cases)
    case not_array
    with q show ?thesis by (simp add: console_error_def)
  next
    case (write_failed xs)
    with q show ?thesis by (simp add: console_error_def)
  next
    case (written xs)
    then show ?thesis by simp
  qed
qed

lemma updateTransactionStatus_throws:
  assumes "getTransactionHistory w = JArr ys" "findIndex_from 0 h ys = Inl e"
  shows "console (updateTransactionStatus h st w) =
           console w @ [(''Failed to update transaction status:'', error_text e)]"
  using assms by (simp add: updateTransactionStatus_def console_error_def)

lemma records_with_id_fresh:
  assumes "records_with_id h (JArr xs) = []" "i < length xs"
  shows "js_get ''id'' (xs ! i) \<noteq> Inr (Some (JStr h))"
proof
  assume "js_get ''id'' (xs ! i) = Inr (Some (JStr h))"
  then have "id_of (xs ! i) = Some (JStr h)" by (simp add: id_of_def)
  with assms(2) have "xs ! i \<in> set (records_with_id h (JArr xs))"
    by (simp add: records_with_id_def)
  with assms(1) show False by simp
qed

text \<open>
  C3, as amended. When \<open>sendMonad\<close> returns a hash, the store can be read, no record had
  that hash before, and nothing was logged as failed (both writes succeeded), the history
  afterwards holds exactly one record with the returned hash, and its status is
  \<open>confirmed\<close> or \<open>failed\<close>, not \<open>pending\<close>.
\<close>

theorem sendMonad_ledger_record:
  assumes sm: "sendMonad E k r amt w = (Some (Inr h), w')"
    and rd: "readable w"
    and fresh: "records_with_id h (getTransactionHistory w) = []"
    and quiet: "console w' = console w"
  shows "\<exists>a st. (st = confirmed \<or> st = failed) \<and>
           records_with_id h (getTransactionHistory w') =
             [tx_to_json \<lparr>tx_id = h, tx_timestamp = now E, tx_sender = a,
                tx_recipient = r, tx_amount = amt, tx_status = st\<rparr>]"
proof -
  from sm obtain a gp bal v rc where
    "privateKeyToAccount E k = Inr a" "getGasPrice E = Inr gp"
    "getBalance E a = Inr bal" "parseEther E amt = Inr v" "\<not> bal < v + gp * GAS_LIMIT"
    "sendTransaction E a r v GAS_LIMIT = Inr h"
    "waitForTransactionReceipt E h = Some (Inr rc)" and
    w': "w' = updateTransactionStatus h
             (if js_truthy (receipt_status rc) then confirmed else failed)
             (submitted E a r amt h v w)"
    by (rule sendMonad_returns)
  define st where "st = (if js_truthy (receipt_status rc) then confirmed else failed)"
  define w5 where "w5 = submitted E a r amt h v w"
  define t where "t = \<lparr>tx_id = h, tx_timestamp = now E, tx_sender = a,
           tx_recipient = r, tx_amount = amt, tx_status = pending\<rparr>"
  have w'': "w' = updateTransactionStatus h st w5" by (simp add: w' st_def w5_def)
  have st: "st = confirmed \<or> st = failed" by (simp add: st_def)
  have c5: "console w5 = console w \<or> (\<exists>m. console w5 = console w @ [m])"
    using logTransaction_console[of t
        "rpc (SendTransaction a r v GAS_LIMIT) (rpc (GetBalance a) (rpc GetGasPrice w))"]
    by (auto simp: w5_def submitted_def t_def)
  have c6: "console w' = console w5 \<or> (\<exists>m. console w' = console w5 @ [m])"
    using updateTransactionStatus_console[of h st w5] by (auto simp: w'')
  have l5: "length (console w5) = length (console w) \<or> length (console w5) = Suc (length (console w))"
    using c5 by (metis length_append_singleton)
  have l6: "length (console w') = length (console w5) \<or> length (console w') = Suc (length (console w5))"
    using c6 by (metis length_append_singleton)
  have lq: "length (console w') = length (console w)" using quiet by simp
  have q5: "console w5 = console w"
  proof (rule ccontr)
    assume "console w5 \<noteq> console w"
    with c5 obtain m where "console w5 = console w @ [m]" by blast
    then have "length (console w5) = Suc (length (console w))" by simp
    with l6 lq show False by linarith
  qed
  have q6: "console w' = console w5"
  proof (rule ccontr)
    assume "console w' \<noteq> console w5"
    with c6 obtain m where "console w' = console w5 @ [m]" by blast
    then have "length (console w') = Suc (length (console w5))" by simp
    with q5 lq show False by simp
  qed
  from submitted_quiet[OF q5[unfolded w5_def]] obtain xs where
    xs: "getTransactionHistory w = JArr xs" and ok: "write_results w = [] \<or> hd (write_results w)"
    by blast
  note sw = submitted_written[OF xs rd ok, of E a r amt h v, folded w5_def t_def]
  let ?ys = "xs @ [tx_to_json t]"
  have tid: "js_get ''id'' (tx_to_json t) = Inr (Some (JStr h))"
    using js_get_id_record[of t] by (simp add: t_def)
  obtain i where i: "findIndex_from 0 h ?ys = Inr (Some i)"
  proof (cases "findIndex_from 0 h ?ys")
    case (Inl e)
    from updateTransactionStatus_throws[OF sw(1) Inl, of st] q6 show ?thesis
      by (simp add: w'')
  next
    case (Inr ro)
    show ?thesis
    proof (cases ro)
      case None
      with Inr findIndex_from_None[of 0 h ?ys] tid show ?thesis by auto
    next
      case (Some i)
      with Inr that show ?thesis by simp
    qed
  qed
  from findIndex_from_found[OF i] have il: "i < length ?ys"
    and ig: "js_get ''id'' (?ys ! i) = Inr (Some (JStr h))" by auto
  have "i = length xs"
  proof (rule ccontr)
    assume "i \<noteq> length xs"
    with il have lt: "i < length xs" by simp
    from records_with_id_fresh[OF fresh[unfolded xs] lt] ig lt show False
      by (simp add: nth_append)
  qed
  then have yi: "?ys ! i = tx_to_json t" by simp
  from updateTransactionStatus_found[OF sw(1) i, of st] yi js_set_status_record[of st t]
  have u: "updateTransactionStatus h st w5 =
       (if write_results w5 = [] \<or> hd (write_results w5)
        then w5\<lparr>log_file := Some (JsonText (JArr (?ys[i := tx_to_json (t\<lparr>tx_status := st\<rparr>)]))),
               write_results := tl (write_results w5)\<rparr>
        else console_error ''Failed to update transaction status:'' (error_text IOError)
               (w5\<lparr>write_results := tl (write_results w5)\<rparr>))"
    by auto
  have ok2: "write_results w5 = [] \<or> hd (write_results w5)"
  proof (rule ccontr)
    assume "\<not> ?thesis"
    with u q6 show False by (simp add: w'' console_error_def)
  qed
  with u \<open>i = length xs\<close>
  have "w' = w5\<lparr>log_file := Some (JsonText (JArr (xs @ [tx_to_json (t\<lparr>tx_status := st\<rparr>)]))),
               write_results := tl (write_results w5)\<rparr>"
    by (simp add: w'')
  with sw(4) have hist: "getTransactionHistory w' = JArr (xs @ [tx_to_json (t\<lparr>tx_status := st\<rparr>)])"
    by (simp add: getTransactionHistory_def readFile_def)
  have "filter (\<lambda>x. id_of x = Some (JStr h)) xs = []"
    using fresh by (simp add: xs records_with_id_def)
  moreover have "id_of (tx_to_json (t\<lparr>tx_status := st\<rparr>)) = Some (JStr h)"
    by (simp add: id_of_def tx_to_json_def t_def)
  ultimately have "records_with_id h (getTransactionHistory w') = [tx_to_json (t\<lparr>tx_status := st\<rparr>)]"
    by (simp add: hist records_with_id_def)
  with st show ?thesis by (auto simp: t_def)
qed

lemmas run_defs = sendMonad_def logTransaction_def updateTransactionStatus_def
  getTransactionHistory_def readFile_def writeFile_def JSON_stringify_def rpc_def
  console_error_def tx_to_json_def status_text_def js_truthy_def GAS_LIMIT_def Let_def
  error_text_def

theorem sendMonad_insufficient_iff_witness:
  "submissions (snd (sendMonad
      \<lparr>privateKeyToAccount = (\<lambda>k. Inr ''0xA''), getGasPrice = Inr 2,
       getBalance = (\<lambda>a. Inr 1500000000000042000),
       parseEther = (\<lambda>s. Inr 1500000000000000000),
       sendTransaction = (\<lambda>a b v g. Inr ''0xh''),
       waitForTransactionReceipt = (\<lambda>h. Some (Inr \<lparr>receipt_status = ''success''\<rparr>)),
       now = 1700000000000\<rparr>
      ''key'' ''0xB'' ''1.5''
      \<lparr>log_file = None, readable = True, write_results = [], console = [], rpc_log = []\<rparr>))
   = [SendTransaction ''0xA'' ''0xB'' 1500000000000000000 21000]"
  using sendMonad_insufficient_iff
    [of "\<lparr>privateKeyToAccount = (\<lambda>k. Inr ''0xA''), getGasPrice = Inr 2,
       getBalance = (\<lambda>a. Inr 1500000000000042000),
       parseEther = (\<lambda>s. Inr 1500000000000000000),
       sendTransaction = (\<lambda>a b v g. Inr ''0xh''),
       waitForTransactionReceipt = (\<lambda>h. Some (Inr \<lparr>receipt_status = ''success''\<rparr>)),
       now = 1700000000000\<rparr>"
      "''key''" "''0xA''" 2 1500000000000042000 "''1.5''" 1500000000000000000 "''0xB''"
      "\<lparr>log_file = None, readable = True, write_results = [], console = [], rpc_log = []\<rparr>"]
  by (simp add: submissions_def)

theorem sendMonad_persistence_swallowed_witness:
  "fst (sendMonad
      \<lparr>privateKeyToAccount = (\<lambda>k. Inr ''0xA''), getGasPrice = Inr 2,
       getBalance = (\<lambda>a. Inr 1500000000000042000),
       parseEther = (\<lambda>s. Inr 1500000000000000000),
       sendTransaction = (\<lambda>a b v g. Inr ''0xh''),
       waitForTransactionReceipt = (\<lambda>h. Some (Inr \<lparr>receipt_status = ''success''\<rparr>)),
       now = 1700000000000\<rparr>
      ''key'' ''0xB'' ''1.5''
      \<lparr>log_file = None, readable = True, write_results = [False, False], console = [],
       rpc_log = []\<rparr>) = Some (Inr ''0xh'')
   \<and> (\<exists>m. (''Failed to log transaction:'', m) \<in> set (console (snd (sendMonad
      \<lparr>privateKeyToAccount = (\<lambda>k. Inr ''0xA''), getGasPrice = Inr 2,
       getBalance = (\<lambda>a. Inr 1500000000000042000),
       parseEther = (\<lambda>s. Inr 1500000000000000000),
       sendTransaction = (\<lambda>a b v g. Inr ''0xh''),
       waitForTransactionReceipt = (\<lambda>h. Some (Inr \<lparr>receipt_status = ''success''\<rparr>)),
       now = 1700000000000\<rparr>
      ''key'' ''0xB'' ''1.5''
      \<lparr>log_file = None, readable = True, write_results = [False, False], console = [],
       rpc_log = []\<rparr>))))"
  using sendMonad_persistence_swallowed
    [of "\<lparr>privateKeyToAccount = (\<lambda>k. Inr ''0xA''), getGasPrice = Inr 2,
       getBalance = (\<lambda>a. Inr 1500000000000042000),
       parseEther = (\<lambda>s. Inr 1500000000000000000),
       sendTransaction = (\<lambda>a b v g. Inr ''0xh''),
       waitForTransactionReceipt = (\<lambda>h. Some (Inr \<lparr>receipt_status = ''success''\<rparr>)),
       now = 1700000000000\<rparr>"
      "''key''" "''0xA''" 2 1500000000000042000 "''1.5''" 1500000000000000000 "''0xB''" "''0xh''"
      "\<lparr>receipt_status = ''success''\<rparr>"
      "\<lparr>log_file = None, readable = True, write_results = [False, False], console = [],
       rpc_log = []\<rparr>"]
  by (simp add: GAS_LIMIT_def)

text \<open>
  C1. A run in which the receipt reports \<^verbatim>\<open>'reverted'\<close>: \<open>sendMonad\<close> returns the hash,
  and the status it stores is \<open>confirmed\<close>, because the test
  \<^verbatim>\<open>receipt.status ? 'confirmed' : 'failed'\<close> is true of every non-empty string.
\<close>

theorem sendMonad_revert_stores_confirmed:
  "sendMonad
      \<lparr>privateKeyToAccount = (\<lambda>k. Inr ''0xA''), getGasPrice = Inr 2,
       getBalance = (\<lambda>a. Inr 1500000000000042000),
       parseEther = (\<lambda>s. Inr 1500000000000000000),
       sendTransaction = (\<lambda>a b v g. Inr ''0xh''),
       waitForTransactionReceipt = (\<lambda>h. Some (Inr \<lparr>receipt_status = ''reverted''\<rparr>)),
       now = 1700000000000\<rparr>
      ''key'' ''0xB'' ''1.5''
      \<lparr>log_file = None, readable = True, write_results = [], console = [], rpc_log = []\<rparr>
   = (Some (Inr ''0xh''),
      \<lparr>log_file = Some (JsonText (JArr
           [JObj [(''id'', JStr ''0xh''), (''timestamp'', JNum 1700000000000),
                  (''sender'', JStr ''0xA''), (''recipient'', JStr ''0xB''),
                  (''amount'', JStr ''1.5''), (''status'', JStr ''confirmed'')]])),
       readable = True, write_results = [], console = [],
       rpc_log = [GetGasPrice, GetBalance ''0xA'',
                  SendTransaction ''0xA'' ''0xB'' 1500000000000000000 21000,
                  WaitForTransactionReceipt ''0xh'']\<rparr>)"
  by (simp add: run_defs)

lemma js_set_without_status:
  "js_set ''status'' v y = Inr x \<Longrightarrow> without_status x = without_status y"
  by (cases y) (auto simp: without_status_def delete_update_same)

lemma updateTransactionStatus_file:
  assumes "getTransactionHistory w = JArr ys"
  shows "log_file (updateTransactionStatus h st w) = log_file w
     \<or> (\<exists>i x. i < length ys \<and> js_set ''status'' (JStr (status_text st)) (ys ! i) = Inr x
            \<and> log_file (updateTransactionStatus h st w) = Some (JsonText (JArr (ys[i := x]))))"
proof (cases "findIndex_from 0 h ys")
  case (Inl e)
  with assms show ?thesis by (simp add: updateTransactionStatus_def console_error_def)
next
  case (Inr ro)
  show ?thesis
  proof (cases ro)
    case None
    with Inr assms show ?thesis by (simp add: updateTransactionStatus_def)
  next
    case (Some i)
    from findIndex_from_found[OF Inr[unfolded Some]] have il: "i < length ys" by simp
    from updateTransactionStatus_found[OF assms Inr[unfolded Some], of st]
    obtain x where x: "js_set ''status'' (JStr (status_text st)) (ys ! i) = Inr x"
      and u: "updateTransactionStatus h st w =
       (if write_results w = [] \<or> hd (write_results w)
        then w\<lparr>log_file := Some (JsonText (JArr (ys[i := x]))),
               write_results := tl (write_results w)\<rparr>
        else console_error ''Failed to update transaction status:'' (error_text IOError)
               (w\<lparr>write_results := tl (write_results w)\<rparr>))"
      by blast
    show ?thesis
    proof (cases "write_results w = [] \<or> hd (write_results w)")
      case True
      with u have "log_file (updateTransactionStatus h st w) = Some (JsonText (JArr (ys[i := x])))"
        by simp
      with il x show ?thesis by blast
    next
      case False
      with u have "log_file (updateTransactionStatus h st w) = log_file w"
        by (simp add: console_error_def)
      then show ?thesis by simp
    qed
  qed
qed

lemma kept_refl: "kept xs xs"
  by (simp add: kept_def)

lemma kept_update:
  assumes "i < length xs" "without_status x = without_status (xs ! i)"
  shows "kept xs (xs[i := x])"
  using assms by (simp add: kept_def map_update list_update_same_conv)

lemma records_kept_readable:
  assumes "readable w" "log_file w = Some (JsonText (JArr xs))"
  shows "kept xs (persisted (logTransaction tx w))
       \<and> kept xs (persisted (updateTransactionStatus txId st w))"
proof -
  have h: "getTransactionHistory w = JArr xs"
    using assms by (rule getTransactionHistory_array)
  have "kept xs (persisted (logTransaction tx w))"
    using h assms(2)
    by (cases tx w rule: logTransaction_cases)
       (auto simp: persisted_def console_error_def kept_def)
  moreover have "kept xs (persisted (updateTransactionStatus txId st w))"
  proof -
    from updateTransactionStatus_file[OF h, of txId st]
    consider "log_file (updateTransactionStatus txId st w) = log_file w"
      | i x where "i < length xs" "js_set ''status'' (JStr (status_text st)) (xs ! i) = Inr x"
          "log_file (updateTransactionStatus txId st w) = Some (JsonText (JArr (xs[i := x])))"
      by blast
    then show ?thesis
    proof cases
      case 1
      with assms(2) show ?thesis by (simp add: persisted_def kept_refl)
    next
      case (2 i x)
      from kept_update[OF 2(1) js_set_without_status[OF 2(2)]] 2(3)
      show ?thesis by (simp add: persisted_def)
    qed
  qed
  ultimately show ?thesis by simp
qed


lemma logTransaction_unreadable:
  assumes "\<not> readable w \<or> log_file w = None \<or> (\<exists>s. log_file w = Some (Unparseable s))"
    and "write_results w = [] \<or> hd (write_results w)"
  shows "persisted (logTransaction tx w) = [tx_to_json tx]"
proof -
  have h: "getTransactionHistory w = JArr []"
    using assms(1) by (auto simp: getTransactionHistory_def readFile_def)
  show ?thesis
    using h assms(2)
    by (cases tx w rule: logTransaction_cases) (auto simp: persisted_def)
qed

text \<open>
  C9, as amended. While the store can be read and holds an array, \<open>logTransaction\<close> and
  \<open>updateTransactionStatus\<close> keep every record in its place with every property but the
  status as it was. When the store cannot be read or does not parse, a successful
  \<open>logTransaction\<close> leaves the new record as the only content of the file.
\<close>

theorem ledger_records_kept:
  "(readable w \<and> log_file w = Some (JsonText (JArr xs)) \<longrightarrow>
      kept xs (persisted (logTransaction tx w))
      \<and> kept xs (persisted (updateTransactionStatus txId st w)))
   \<and> ((\<not> readable w \<or> log_file w = None \<or> (\<exists>s. log_file w = Some (Unparseable s)))
       \<and> (write_results w = [] \<or> hd (write_results w)) \<longrightarrow>
      persisted (logTransaction tx w) = [tx_to_json tx])"
  using records_kept_readable[of w xs tx txId st] logTransaction_unreadable[of w tx]
  by blast

theorem ledger_records_kept_witness:
  "kept [JObj [(''id'', JStr ''0xaa''), (''status'', JStr ''pending'')]]
     (persisted (logTransaction
        \<lparr>tx_id = ''0xbb'', tx_timestamp = 1700000000000, tx_sender = ''0x01'',
         tx_recipient = ''0x02'', tx_amount = ''1.5'', tx_status = pending\<rparr>
        \<lparr>log_file = Some (JsonText (JArr [JObj [(''id'', JStr ''0xaa''), (''status'', JStr ''pending'')]])),
         readable = True, write_results = [], console = [], rpc_log = []\<rparr>))
   \<and> kept [JObj [(''id'', JStr ''0xaa''), (''status'', JStr ''pending'')]]
     (persisted (updateTransactionStatus ''0xaa'' confirmed
        \<lparr>log_file = Some (JsonText (JArr [JObj [(''id'', JStr ''0xaa''), (''status'', JStr ''pending'')]])),
         readable = True, write_results = [], console = [], rpc_log = []\<rparr>))
   \<and> persisted (logTransaction
        \<lparr>tx_id = ''0xbb'', tx_timestamp = 1700000000000, tx_sender = ''0x01'',
         tx_recipient = ''0x02'', tx_amount = ''1.5'', tx_status = pending\<rparr>
        \<lparr>log_file = Some (Unparseable ''[{''), readable = True, write_results = [],
         console = [], rpc_log = []\<rparr>)
     = [tx_to_json \<lparr>tx_id = ''0xbb'', tx_timestamp = 1700000000000, tx_sender = ''0x01'',
         tx_recipient = ''0x02'', tx_amount = ''1.5'', tx_status = pending\<rparr>]"
  using ledger_records_kept
    [of "\<lparr>log_file = Some (JsonText (JArr [JObj [(''id'', JStr ''0xaa''), (''status'', JStr ''pending'')]])),
         readable = True, write_results = [], console = [], rpc_log = []\<rparr>"
        "[JObj [(''id'', JStr ''0xaa''), (''status'', JStr ''pending'')]]"
        "\<lparr>tx_id = ''0xbb'', tx_timestamp = 1700000000000, tx_sender = ''0x01'',
         tx_recipient = ''0x02'', tx_amount = ''1.5'', tx_status = pending\<rparr>"
        "''0xaa''" confirmed]
    ledger_records_kept
    [of "\<lparr>log_file = Some (Unparseable ''[{''), readable = True, write_results = [],
         console = [], rpc_log = []\<rparr>"
        "[]"
        "\<lparr>tx_id = ''0xbb'', tx_timestamp = 1700000000000, tx_sender = ''0x01'',
         tx_recipient = ''0x02'', tx_amount = ''1.5'', tx_status = pending\<rparr>"
        "''0xaa''" confirmed]
  by simp

text \<open>
  C9, as stated, fails: a record held by a file that cannot be read at the moment of
  \<open>logTransaction\<close> is no longer in the file afterwards.
\<close>

theorem logTransaction_unreadable_loses_records:
  "JObj [(''id'', JStr ''0xaa''), (''timestamp'', JNum 1600000000000),
         (''sender'', JStr ''0x01''), (''recipient'', JStr ''0x02''),
         (''amount'', JStr ''2''), (''status'', JStr ''confirmed'')]
     \<in> set (persisted
        \<lparr>log_file = Some (JsonText (JArr
           [JObj [(''id'', JStr ''0xaa''), (''timestamp'', JNum 1600000000000),
                  (''sender'', JStr ''0x01''), (''recipient'', JStr ''0x02''),
                  (''amount'', JStr ''2''), (''status'', JStr ''confirmed'')]])),
         readable = False, write_results = [], console = [], rpc_log = []\<rparr>)
   \<and> JObj [(''id'', JStr ''0xaa''), (''timestamp'', JNum 1600000000000),
         (''sender'', JStr ''0x01''), (''recipient'', JStr ''0x02''),
         (''amount'', JStr ''2''), (''status'', JStr ''confirmed'')]
     \<notin> set (persisted (logTransaction
        \<lparr>tx_id = ''0xbb'', tx_timestamp = 1700000000000, tx_sender = ''0x01'',
         tx_recipient = ''0x02'', tx_amount = ''1.5'', tx_status = pending\<rparr>
        \<lparr>log_file = Some (JsonText (JArr
           [JObj [(''id'', JStr ''0xaa''), (''timestamp'', JNum 1600000000000),
                  (''sender'', JStr ''0x01''), (''recipient'', JStr ''0x02''),
                  (''amount'', JStr ''2''), (''status'', JStr ''confirmed'')]])),
         readable = False, write_results = [], console = [], rpc_log = []\<rparr>))"
  by (simp add: persisted_def logTransaction_def getTransactionHistory_def readFile_def
        writeFile_def JSON_stringify_def tx_to_json_def)

text \<open>
  C3, as stated, fails: when the ledger already holds a record with the hash the node
  returns, both writes succeed and nothing is logged, yet the history afterwards holds two
  records with that hash; the update reaches the older one and the new one stays
  \<open>pending\<close>.
\<close>

theorem sendMonad_known_hash_two_records:
  "sendMonad
      \<lparr>privateKeyToAccount = (\<lambda>k. Inr ''0xA''), getGasPrice = Inr 2,
       getBalance = (\<lambda>a. Inr 1500000000000042000),
       parseEther = (\<lambda>s. Inr 1500000000000000000),
       sendTransaction = (\<lambda>a b v g. Inr ''0xh''),
       waitForTransactionReceipt = (\<lambda>h. Some (Inr \<lparr>receipt_status = ''success''\<rparr>)),
       now = 1700000000000\<rparr>
      ''key'' ''0xB'' ''1.5''
      \<lparr>log_file = Some (JsonText (JArr
           [JObj [(''id'', JStr ''0xh''), (''timestamp'', JNum 1600000000000),
                  (''sender'', JStr ''0xA''), (''recipient'', JStr ''0xC''),
                  (''amount'', JStr ''2''), (''status'', JStr ''failed'')]])),
       readable = True, write_results = [True, True], console = [], rpc_log = []\<rparr>
   = (Some (Inr ''0xh''),
      \<lparr>log_file = Some (JsonText (JArr
           [JObj [(''id'', JStr ''0xh''), (''timestamp'', JNum 1600000000000),
                  (''sender'', JStr ''0xA''), (''recipient'', JStr ''0xC''),
                  (''amount'', JStr ''2''), (''status'', JStr ''confirmed'')],
            JObj [(''id'', JStr ''0xh''), (''timestamp'', JNum 1700000000000),
                  (''sender'', JStr ''0xA''), (''recipient'', JStr ''0xB''),
                  (''amount'', JStr ''1.5''), (''status'', JStr ''pending'')]])),
       readable = True, write_results = [], console = [],
       rpc_log = [GetGasPrice, GetBalance ''0xA'',
                  SendTransaction ''0xA'' ''0xB'' 1500000000000000000 21000,
                  WaitForTransactionReceipt ''0xh'']\<rparr>)
   \<and> records_with_id ''0xh'' (getTransactionHistory
      \<lparr>log_file = Some (JsonText (JArr
           [JObj [(''id'', JStr ''0xh''), (''timestamp'', JNum 1600000000000),
                  (''sender'', JStr ''0xA''), (''recipient'', JStr ''0xC''),
                  (''amount'', JStr ''2''), (''status'', JStr ''confirmed'')],
            JObj [(''id'', JStr ''0xh''), (''timestamp'', JNum 1700000000000),
                  (''sender'', JStr ''0xA''), (''recipient'', JStr ''0xB''),
                  (''amount'', JStr ''1.5''), (''status'', JStr ''pending'')]])),
       readable = True, write_results = [], console = [],
       rpc_log = [GetGasPrice, GetBalance ''0xA'',
                  SendTransaction ''0xA'' ''0xB'' 1500000000000000000 21000,
                  WaitForTransactionReceipt ''0xh'']\<rparr>)
     = [JObj [(''id'', JStr ''0xh''), (''timestamp'', JNum 1600000000000),
              (''sender'', JStr ''0xA''), (''recipient'', JStr ''0xC''),
              (''amount'', JStr ''2''), (''status'', JStr ''confirmed'')],
        JObj [(''id'', JStr ''0xh''), (''timestamp'', JNum 1700000000000),
              (''sender'', JStr ''0xA''), (''recipient'', JStr ''0xB''),
              (''amount'', JStr ''1.5''), (''status'', JStr ''pending'')]]"
  by (simp add: run_defs records_with_id_def id_of_def)

theorem sendMonad_ledger_record_witness:
  "sendMonad
      \<lparr>privateKeyToAccount = (\<lambda>k. Inr ''0xA''), getGasPrice = Inr 2,
       getBalance = (\<lambda>a. Inr 1500000000000042000),
       parseEther = (\<lambda>s. Inr 1500000000000000000),
       sendTransaction = (\<lambda>a b v g. Inr ''0xh''),
       waitForTransactionReceipt = (\<lambda>h. Some (Inr \<lparr>receipt_status = ''success''\<rparr>)),
       now = 1700000000000\<rparr>
      ''key'' ''0xB'' ''1.5''
      \<lparr>log_file = None, readable = True, write_results = [], console = [], rpc_log = []\<rparr>
    = (Some (Inr ''0xh''),
       \<lparr>log_file = Some (JsonText (JArr
           [JObj [(''id'', JStr ''0xh''), (''timestamp'', JNum 1700000000000),
                  (''sender'', JStr ''0xA''), (''recipient'', JStr ''0xB''),
                  (''amount'', JStr ''1.5''), (''status'', JStr ''confirmed'')]])),
        readable = True, write_results = [], console = [],
        rpc_log = [GetGasPrice, GetBalance ''0xA'',
                  SendTransaction ''0xA'' ''0xB'' 1500000000000000000 21000,
                  WaitForTransactionReceipt ''0xh'']\<rparr>)
   \<and> (\<exists>a st. (st = confirmed \<or> st = failed) \<and>
        records_with_id ''0xh'' (getTransactionHistory
          \<lparr>log_file = Some (JsonText (JArr
             [JObj [(''id'', JStr ''0xh''), (''timestamp'', JNum 1700000000000),
                    (''sender'', JStr ''0xA''), (''recipient'', JStr ''0xB''),
                    (''amount'', JStr ''1.5''), (''status'', JStr ''confirmed'')]])),
           readable = True, write_results = [], console = [],
           rpc_log = [GetGasPrice, GetBalance ''0xA'',
                  SendTransaction ''0xA'' ''0xB'' 1500000000000000000 21000,
                  WaitForTransactionReceipt ''0xh'']\<rparr>)
        = [tx_to_json \<lparr>tx_id = ''0xh'', tx_timestamp = 1700000000000, tx_sender = a,
             tx_recipient = ''0xB'', tx_amount = ''1.5'', tx_status = st\<rparr>])"
proof -
  let ?E = "\<lparr>privateKeyToAccount = (\<lambda>k. Inr ''0xA''), getGasPrice = Inr 2,
       getBalance = (\<lambda>a. Inr 1500000000000042000),
       parseEther = (\<lambda>s. Inr 1500000000000000000),
       sendTransaction = (\<lambda>a b v g. Inr ''0xh''),
       waitForTransactionReceipt = (\<lambda>h. Some (Inr \<lparr>receipt_status = ''success''\<rparr>)),
       now = 1700000000000\<rparr>"
  let ?w = "\<lparr>log_file = None, readable = True, write_results = [], console = [], rpc_log = []\<rparr>"
  let ?w' = "\<lparr>log_file = Some (JsonText (JArr
           [JObj [(''id'', JStr ''0xh''), (''timestamp'', JNum 1700000000000),
                  (''sender'', JStr ''0xA''), (''recipient'', JStr ''0xB''),
                  (''amount'', JStr ''1.5''), (''status'', JStr ''confirmed'')]])),
       readable = True, write_results = [], console = [],
       rpc_log = [GetGasPrice, GetBalance ''0xA'',
                  SendTransaction ''0xA'' ''0xB'' 1500000000000000000 21000,
                  WaitForTransactionReceipt ''0xh'']\<rparr>"
  have sm: "sendMonad ?E ''key'' ''0xB'' ''1.5'' ?w = (Some (Inr ''0xh''), ?w')"
    by (simp add: run_defs)
  have rd: "readable ?w" by simp
  have fresh: "records_with_id ''0xh'' (getTransactionHistory ?w) = []"
    by (simp add: records_with_id_def getTransactionHistory_def readFile_def)
  have quiet: "console ?w' = console ?w" by simp
  from sendMonad_ledger_record[OF sm rd fresh quiet]
  have "\<exists>a st. (st = confirmed \<or> st = failed) \<and>
        records_with_id ''0xh'' (getTransactionHistory ?w')
        = [tx_to_json \<lparr>tx_id = ''0xh'', tx_timestamp = 1700000000000, tx_sender = a,
             tx_recipient = ''0xB'', tx_amount = ''1.5'', tx_status = st\<rparr>]"
    by simp
  with sm show ?thesis by (rule conjI)
qed

section \<open>Properties of the dispatcher\<close>

text \<open>The matcher decides membership in the language of the pattern.\<close>

lemma nullable_lang: "nullable r \<longleftrightarrow> [] \<in> lang r"
  by (induction r) (auto simp: conc_def intro: star.star_empty)

lemma star_cons:
  "c # s \<in> star A \<longleftrightarrow> (\<exists>u v. s = u @ v \<and> c # u \<in> A \<and> v \<in> star A)"
proof
  assume "c # s \<in> star A"
  then have "\<forall>s'. c # s = c # s' \<longrightarrow> (\<exists>u v. s' = u @ v \<and> c # u \<in> A \<and> v \<in> star A)"
  proof (induction "c # s" arbitrary: s rule: star.induct)
    case (star_more u v)
    show ?case
    proof (cases u)
      case Nil
      with star_more show ?thesis by simp
    next
      case (Cons a u')
      with star_more show ?thesis by auto
    qed
  qed
  then show "\<exists>u v. s = u @ v \<and> c # u \<in> A \<and> v \<in> star A" by simp
next
  assume "\<exists>u v. s = u @ v \<and> c # u \<in> A \<and> v \<in> star A"
  then obtain u v where "s = u @ v" "c # u \<in> A" "v \<in> star A" by blast
  then show "c # s \<in> star A"
    using star.star_more[of "c # u" A v] by simp
qed

lemma conc_cons:
  "c # s \<in> conc A B \<longleftrightarrow>
     ([] \<in> A \<and> c # s \<in> B) \<or> (\<exists>u v. s = u @ v \<and> c # u \<in> A \<and> v \<in> B)"
  by (auto simp: conc_def Cons_eq_append_conv)

lemma lang_deriv: "s \<in> lang (deriv c r) \<longleftrightarrow> c # s \<in> lang r"
proof (induction r arbitrary: s)
  case (Seq r1 r2)
  then show ?case
    by (auto simp: conc_cons nullable_lang) (auto simp: conc_def)
next
  case (Star r)
  then show ?case
    by (auto simp: star_cons) (auto simp: conc_def)
qed auto

lemma matches_lang: "matches r s \<longleftrightarrow> s \<in> lang r"
  by (induction s arbitrary: r) (simp_all add: nullable_lang lang_deriv)

lemma star_atoms: "star {[c] | c. p c} = {s. list_all p s}"
proof (intro set_eqI iffI)
  fix s assume "s \<in> star {[c] | c. p c}"
  then show "s \<in> {s. list_all p s}"
    by (induction rule: star.induct) auto
next
  fix s assume "s \<in> {s. list_all p s}"
  then have "list_all p s" by simp
  then show "s \<in> star {[c] | c. p c}"
  proof (induction s)
    case Nil
    show ?case by (rule star.star_empty)
  next
    case (Cons c s)
    then have "[c] \<in> {[c] | c. p c}" and "s \<in> star {[c] | c. p c}" by auto
    then have "[c] @ s \<in> star {[c] | c. p c}" by (rule star.star_more)
    then show ?case by simp
  qed
qed

lemma conc_atoms:
  "s \<in> conc {[c] | c. p c} B \<longleftrightarrow> (\<exists>c t. s = c # t \<and> p c \<and> t \<in> B)"
proof
  assume "s \<in> conc {[c] | c. p c} B"
  then show "\<exists>c t. s = c # t \<and> p c \<and> t \<in> B" by (auto simp: conc_def)
next
  assume "\<exists>c t. s = c # t \<and> p c \<and> t \<in> B"
  then obtain c t where "s = [c] @ t" "p c" "t \<in> B" by auto
  then show "s \<in> conc {[c] | c. p c} B" unfolding conc_def by blast
qed

lemma lang_repeat_Atom:
  "s \<in> lang (repeat_n n (Atom p)) \<longleftrightarrow> length s = n \<and> list_all p s"
proof (induction n arbitrary: s)
  case 0
  show ?case by auto
next
  case (Suc n)
  show ?case by (cases s) (auto simp: conc_atoms Suc)
qed

lemma conc_single: "s \<in> conc {[a]} B \<longleftrightarrow> (\<exists>t. s = a # t \<and> t \<in> B)"
  using conc_atoms[of s "\<lambda>c. c = a" B] by simp

lemma lang_Chr: "lang (Chr a) = {[a]}"
  by (simp add: Chr_def)

lemma matches_prefixed_hex:
  "matches (Seq (Chr CHR ''0'') (Seq (Chr CHR ''x'') (repeat_n n (Atom hex_digit)))) s
     \<longleftrightarrow> hex_format n s"
proof -
  have "s \<in> lang (Seq (Chr CHR ''0'') (Seq (Chr CHR ''x'') (repeat_n n (Atom hex_digit))))
     \<longleftrightarrow> (\<exists>t. s = CHR ''0'' # CHR ''x'' # t \<and> length t = n \<and> list_all hex_digit t)"
    by (auto simp: lang_Chr conc_single lang_repeat_Atom)
  also have "\<dots> \<longleftrightarrow> hex_format n s"
  proof
    assume "\<exists>t. s = CHR ''0'' # CHR ''x'' # t \<and> length t = n \<and> list_all hex_digit t"
    then show "hex_format n s" by (auto simp: hex_format_def)
  next
    assume h: "hex_format n s"
    then have "take 2 s = ''0x''" by (simp add: hex_format_def)
    then have "s = ''0x'' @ drop 2 s" by (metis append_take_drop_id)
    then obtain t where "s = CHR ''0'' # CHR ''x'' # t" by simp
    with h show "\<exists>t. s = CHR ''0'' # CHR ''x'' # t \<and> length t = n \<and> list_all hex_digit t"
      by (simp add: hex_format_def)
  qed
  finally show ?thesis by (simp add: matches_lang)
qed

lemma matches_private_key: "matches private_key_re s \<longleftrightarrow> hex_format 64 s"
  unfolding private_key_re_def by (rule matches_prefixed_hex)

lemma matches_address: "matches address_re s \<longleftrightarrow> hex_format 40 s"
  unfolding address_re_def by (rule matches_prefixed_hex)

lemma conc_iff: "s \<in> conc A B \<longleftrightarrow> (\<exists>u v. s = u @ v \<and> u \<in> A \<and> v \<in> B)"
  unfolding conc_def by blast

lemma lang_Plus_digit: "t \<in> lang (Plus (Atom digit)) \<longleftrightarrow> t \<noteq> [] \<and> list_all digit t"
  by (cases t) (auto simp: Plus_def conc_atoms star_atoms)

lemma lang_Opt_point: "lang (Opt (Chr CHR ''.'')) = {[], ''.''}"
  by (auto simp: Opt_def lang_Chr)

lemma lang_amount:
  "s \<in> lang amount_re \<longleftrightarrow>
     (\<exists>ds pt es. s = ds @ pt @ es \<and> list_all digit ds \<and> (pt = [] \<or> pt = ''.'')
        \<and> es \<noteq> [] \<and> list_all digit es)"
proof -
  have "s \<in> lang amount_re \<longleftrightarrow>
      (\<exists>ds v. s = ds @ v \<and> list_all digit ds \<and>
         (\<exists>pt es. v = pt @ es \<and> pt \<in> {[], ''.''} \<and> es \<in> lang (Plus (Atom digit))))"
    unfolding amount_re_def lang.simps(5) conc_iff lang_Opt_point
    by (simp only: lang.simps(6) lang.simps(3) star_atoms mem_Collect_eq)
  also have "\<dots> \<longleftrightarrow> (\<exists>ds pt es. s = ds @ pt @ es \<and> list_all digit ds \<and> (pt = [] \<or> pt = ''.'')
        \<and> es \<noteq> [] \<and> list_all digit es)"
    unfolding lang_Plus_digit by blast
  finally show ?thesis .
qed

lemma not_digit_point: "\<not> digit CHR ''.''"
  by (simp add: digit_def)

lemma amount_format_digits:
  assumes "es \<noteq> []" "list_all digit es"
  shows "amount_format es"
proof -
  from assms(2) have all: "\<forall>c\<in>set es. digit c" by (simp add: list_all_iff)
  then have tw: "takeWhile digit es = es" by simp
  from all have dw: "dropWhile digit es = []" by simp
  show ?thesis unfolding amount_format_def Let_def tw dw using assms(1) by simp
qed

lemma amount_format_point:
  assumes "list_all digit ds" "es \<noteq> []" "list_all digit es"
  shows "amount_format (ds @ ''.'' @ es)"
proof -
  from assms(1) have all: "\<forall>c\<in>set ds. digit c" by (simp add: list_all_iff)
  have tw: "takeWhile digit (ds @ ''.'' @ es) = ds"
    using all by (simp add: not_digit_point)
  have dw: "dropWhile digit (ds @ ''.'' @ es) = CHR ''.'' # es"
    using all by (simp add: not_digit_point)
  show ?thesis unfolding amount_format_def Let_def tw dw using assms(2,3) by simp
qed

lemma amount_format_split:
  assumes "amount_format s"
  shows "\<exists>ds pt es. s = ds @ pt @ es \<and> list_all digit ds \<and> (pt = [] \<or> pt = ''.'')
        \<and> es \<noteq> [] \<and> list_all digit es"
proof -
  define ip where "ip = takeWhile digit s"
  define rest where "rest = dropWhile digit s"
  have s: "s = ip @ rest" by (simp add: ip_def rest_def)
  have ip: "list_all digit ip"
    unfolding ip_def list_all_iff using set_takeWhileD by fast
  from assms have f: "if rest = [] then ip \<noteq> []
      else hd rest = CHR ''.'' \<and> tl rest \<noteq> [] \<and> list_all digit (tl rest)"
    by (simp add: amount_format_def Let_def ip_def rest_def)
  show ?thesis
  proof (cases "rest = []")
    case True
    with f have ne: "ip \<noteq> []" by simp
    from True s have e: "s = [] @ [] @ ip" by simp
    have "s = [] @ [] @ ip \<and> list_all digit [] \<and> ([] = [] \<or> [] = ''.'')
        \<and> ip \<noteq> [] \<and> list_all digit ip"
      using e ne ip by simp
    then show ?thesis by (intro exI)
  next
    case False
    then obtain c es where r: "rest = c # es" by (cases rest) auto
    with f have c: "c = CHR ''.''" and es: "es \<noteq> []" "list_all digit es" by simp_all
    from s r c have e: "s = ip @ ''.'' @ es" by simp
    have "s = ip @ ''.'' @ es \<and> list_all digit ip \<and> (''.'' = [] \<or> ''.'' = ''.'')
        \<and> es \<noteq> [] \<and> list_all digit es"
      using e ip es by simp
    then show ?thesis by (intro exI)
  qed
qed

lemma matches_amount: "matches amount_re s \<longleftrightarrow> amount_format s"
proof -
  have "s \<in> lang amount_re \<longleftrightarrow> amount_format s"
  proof
    assume "s \<in> lang amount_re"
    then obtain ds pt es where s: "s = ds @ pt @ es" and ds: "list_all digit ds"
      and pt: "pt = [] \<or> pt = ''.''" and es: "es \<noteq> []" "list_all digit es"
      unfolding lang_amount by blast
    from pt show "amount_format s"
    proof
      assume "pt = []"
      with s ds es have "s \<noteq> []" "list_all digit s" by simp_all
      then show ?thesis by (rule amount_format_digits)
    next
      assume "pt = ''.''"
      with s amount_format_point[OF ds es] show ?thesis by simp
    qed
  next
    assume "amount_format s"
    then show "s \<in> lang amount_re"
      unfolding lang_amount by (rule amount_format_split)
  qed
  then show ?thesis by (simp add: matches_lang)
qed

lemma no_match_private_key: "no_match x private_key_re = malformed (hex_format 64) x"
  by (cases x) (simp_all add: no_match_def malformed_def matches_private_key)

lemma no_match_address: "no_match x address_re = malformed (hex_format 40) x"
  by (cases x) (simp_all add: no_match_def malformed_def matches_address)

lemma no_match_amount: "no_match x amount_re = malformed amount_format x"
  by (cases x) (simp_all add: no_match_def malformed_def matches_amount)

text \<open>
  C8. In the \<^verbatim>\<open>transfer\<close> case of the dispatcher, a private key that is not \<open>0x\<close> and 64
  hexadecimal digits, a recipient that is not \<open>0x\<close> and 40 hexadecimal digits, or an
  amount that is not a plain decimal number (a missing argument included) ends the run
  with exit code 1 and the message of the failed check, and no call to the remote node
  is made.
\<close>

theorem main_transfer_rejects_malformed:
  assumes "malformed (hex_format 64) (argv_at argv 3)
         \<or> malformed (hex_format 40) (argv_at argv 4)
         \<or> malformed amount_format (argv_at argv 5)"
  shows "fst (main_transfer E argv w) = Some 1
       \<and> rpc_log (snd (main_transfer E argv w)) = rpc_log w
       \<and> (snd (main_transfer E argv w) = console_error ''Error:'' ''Invalid private key format'' w
          \<or> snd (main_transfer E argv w) = console_error ''Error:'' ''Invalid Monad address format'' w
          \<or> snd (main_transfer E argv w) = console_error ''Error:'' ''Invalid amount format'' w)"
proof -
  have "main_transfer E argv w =
     (if malformed (hex_format 64) (argv_at argv 3)
        then exit_error ''Invalid private key format'' w
      else if malformed (hex_format 40) (argv_at argv 4)
        then exit_error ''Invalid Monad address format'' w
      else exit_error ''Invalid amount format'' w)"
  proof (cases "malformed (hex_format 64) (argv_at argv 3)")
    case True
    then show ?thesis
      by (simp add: main_transfer_def Let_def no_match_private_key)
  next
    case k: False
    show ?thesis
    proof (cases "malformed (hex_format 40) (argv_at argv 4)")
      case True
      with k show ?thesis
        by (simp add: main_transfer_def Let_def no_match_private_key no_match_address)
    next
      case False
      with k assms have "malformed amount_format (argv_at argv 5)" by simp
      with k False show ?thesis
        by (simp add: main_transfer_def Let_def no_match_private_key no_match_address
              no_match_amount)
    qed
  qed
  then show ?thesis
    by (simp add: exit_error_def console_error_def)
qed

theorem main_transfer_rejects_malformed_witness:
  "malformed (hex_format 40) (argv_at
      [''node'', ''index.js'', ''transfer'',
       ''0x0123456789abcdef0123456789abcdef0123456789abcdef0123456789abcdef'',
       ''0xZZ'', ''1.5''] 4)
   \<and> main_transfer
      \<lparr>privateKeyToAccount = (\<lambda>k. Inr ''0xA''), getGasPrice = Inr 2,
       getBalance = (\<lambda>a. Inr 1500000000000042000),
       parseEther = (\<lambda>s. Inr 1500000000000000000),
       sendTransaction = (\<lambda>a b v g. Inr ''0xh''),
       waitForTransactionReceipt = (\<lambda>h. Some (Inr \<lparr>receipt_status = ''success''\<rparr>)),
       now = 1700000000000\<rparr>
      [''node'', ''index.js'', ''transfer'',
       ''0x0123456789abcdef0123456789abcdef0123456789abcdef0123456789abcdef'',
       ''0xZZ'', ''1.5'']
      \<lparr>log_file = None, readable = True, write_results = [], console = [], rpc_log = []\<rparr>
     = (Some 1,
        \<lparr>log_file = None, readable = True, write_results = [],
         console = [(''Error:'', ''Invalid Monad address format'')], rpc_log = []\<rparr>)"
proof -
  let ?argv = "[''node'', ''index.js'', ''transfer'',
       ''0x0123456789abcdef0123456789abcdef0123456789abcdef0123456789abcdef'',
       ''0xZZ'', ''1.5'']"
  let ?E = "\<lparr>privateKeyToAccount = (\<lambda>k. Inr ''0xA''), getGasPrice = Inr 2,
       getBalance = (\<lambda>a. Inr 1500000000000042000),
       parseEther = (\<lambda>s. Inr 1500000000000000000),
       sendTransaction = (\<lambda>a b v g. Inr ''0xh''),
       waitForTransactionReceipt = (\<lambda>h. Some (Inr \<lparr>receipt_status = ''success''\<rparr>)),
       now = 1700000000000\<rparr>"
  let ?w = "\<lparr>log_file = None, readable = True, write_results = [], console = [], rpc_log = []\<rparr>"
  have bad: "malformed (hex_format 40) (argv_at ?argv 4)"
    by (simp add: malformed_def argv_at_def hex_format_def)
  have key: "\<not> malformed (hex_format 64) (argv_at ?argv 3)"
    by (simp add: malformed_def argv_at_def hex_format_def hex_digit_def)
  have step: "main_transfer ?E ?argv ?w = exit_error ''Invalid Monad address format'' ?w"
    using bad key
    by (simp only: main_transfer_def Let_def no_match_private_key no_match_address if_True if_False)
  from main_transfer_rejects_malformed[of ?argv ?E ?w] bad
  have "fst (main_transfer ?E ?argv ?w) = Some 1" by simp
  with bad step show ?thesis by (simp add: exit_error_def console_error_def)
qed

end
